theory Spec2Isabelle
  imports Main "HOL-Library.List_Lexorder" "HOL-Library.Char_ord"
begin

section \<open>The feed health checker \<open>scripts/check_feeds.py\<close>\<close>

text \<open>
  The script has two functions: \<open>check_feed\<close>, which parses one feed file and returns
  \<open>(ok, warnings, errors)\<close>, and \<open>main\<close>, which runs it over every \<open>feed_*.xml\<close> of the
  feeds directory, prints a report and exits. Both are embedded below as HOL functions.
  What the script obtains from the Python library and the operating system is a
  parameter of the model: what \<open>parse_args\<close> does on the command line, the outcome of
  \<open>ET.parse\<close> on a path, the outcome of \<open>email.utils.parsedate_to_datetime\<close> on a text,
  the reading of the clock, whether the feeds directory exists and what its \<open>glob\<close>
  returns. Exceptions are values: a function
  that can raise returns \<open>exn + 'a\<close>, with \<open>Inl\<close> the exception that leaves it.
\<close>

subsection \<open>Exceptions\<close>

text \<open>
  The exception classes that occur. \<open>ParseError\<close> is \<open>xml.etree.ElementTree.ParseError\<close>,
  the only class the \<open>except\<close> clause of line 35 names; all five are subclasses of
  \<open>Exception\<close>, which the clause of line 68 names. The argument is the message.
\<close>

datatype exn =
    ParseError string
  | OSError string
  | LookupError string
  | ValueError string
  | TypeError string

subsection \<open>Strings\<close>

text \<open>
  Messages, tags and file names are \<open>string\<close>s. The text of an element is a list of
  Unicode code points, since \<open>str.strip()\<close> removes every character for which
  \<open>str.isspace()\<close> holds, and most of these lie beyond one byte.
\<close>

type_synonym ustr = "nat list"

definition ustr_of :: "string \<Rightarrow> ustr" where
  "ustr_of s = map of_char s"

text \<open>The code points that CPython's \<open>str.isspace\<close> accepts.\<close>

definition isspace :: "nat \<Rightarrow> bool" where
  "isspace c =
     ((0x09 \<le> c \<and> c \<le> 0x0D) \<or> (0x1C \<le> c \<and> c \<le> 0x20) \<or> c = 0x85 \<or> c = 0xA0
      \<or> c = 0x1680 \<or> (0x2000 \<le> c \<and> c \<le> 0x200A) \<or> c = 0x2028 \<or> c = 0x2029
      \<or> c = 0x202F \<or> c = 0x205F \<or> c = 0x3000)"

definition strip :: "ustr \<Rightarrow> ustr" where
  "strip s = rev (dropWhile isspace (rev (dropWhile isspace s)))"

text \<open>\<open>str(n)\<close> for a non-negative integer, and zero padding as \<open>strftime\<close> does it.\<close>

definition digit_char :: "nat \<Rightarrow> char" where
  "digit_char d =
     (if d = 0 then CHR ''0'' else if d = 1 then CHR ''1'' else if d = 2 then CHR ''2''
      else if d = 3 then CHR ''3'' else if d = 4 then CHR ''4'' else if d = 5 then CHR ''5''
      else if d = 6 then CHR ''6'' else if d = 7 then CHR ''7'' else if d = 8 then CHR ''8''
      else CHR ''9'')"

fun str_nat :: "nat \<Rightarrow> string" where
  "str_nat n = (if n < 10 then [digit_char n] else str_nat (n div 10) @ [digit_char (n mod 10)])"

declare str_nat.simps [simp del]

definition str_int :: "int \<Rightarrow> string" where
  "str_int i = (if i < 0 then CHR ''-'' # str_nat (nat (- i)) else str_nat (nat i))"

definition zero_pad :: "nat \<Rightarrow> int \<Rightarrow> string" where
  "zero_pad w i = (let s = str_int i in replicate (w - length s) CHR ''0'' @ s)"

subsection \<open>The element tree\<close>

text \<open>
  An \<open>Element\<close> of \<open>xml.etree.ElementTree\<close>: its tag, its \<open>.text\<close> (here \<open>etext\<close>; \<open>None\<close> when the
  element has no text before its first child) and its children in document order.
\<close>

datatype element = Element (tag: string) (etext: "ustr option") (children: "element list")

text \<open>
  \<open>root.findall(".//item")\<close>: every element below the root, at any depth, in document
  order, whose tag is \<open>item\<close>. The root itself is not among them.
\<close>

fun descendants :: "element \<Rightarrow> element list" where
  "descendants (Element t x cs) = concat (map (\<lambda>c. c # descendants c) cs)"

definition findall_item :: "element \<Rightarrow> element list" where
  "findall_item root = filter (\<lambda>e. tag e = ''item'') (descendants root)"

text \<open>\<open>item.find(name)\<close>: the first child with that tag, or \<open>None\<close>.\<close>

definition find_child :: "element \<Rightarrow> string \<Rightarrow> element option" where
  "find_child e name = List.find (\<lambda>c. tag c = name) (children e)"

text \<open>
  The test of lines 55, 57 and 59: \<open>x is None or not (x.text or "").strip()\<close>.
\<close>

definition text_or_empty :: "element \<Rightarrow> ustr" where
  "text_or_empty e = (case etext e of None \<Rightarrow> [] | Some s \<Rightarrow> s)"

definition is_missing :: "element option \<Rightarrow> bool" where
  "is_missing x = (case x of None \<Rightarrow> True | Some e \<Rightarrow> strip (text_or_empty e) = [])"

subsection \<open>Dates\<close>

text \<open>
  A \<open>datetime\<close>: its fields, and \<open>tzinfo\<close> as the offset from UTC in seconds, \<open>None\<close> for
  a naive datetime. A \<open>timedelta\<close> is a number of microseconds.
\<close>

record datetime =
  year :: int
  month :: int
  day :: int
  hour :: int
  minute :: int
  second :: int
  microsecond :: int
  tzinfo :: "int option"

definition is_leap :: "int \<Rightarrow> bool" where
  "is_leap y = (y mod 4 = 0 \<and> (y mod 100 \<noteq> 0 \<or> y mod 400 = 0))"

definition days_before_year :: "int \<Rightarrow> int" where
  "days_before_year y = (y - 1) * 365 + (y - 1) div 4 - (y - 1) div 100 + (y - 1) div 400"

definition days_before_month :: "int \<Rightarrow> int \<Rightarrow> int" where
  "days_before_month y m =
     (if m = 1 then 0 else if m = 2 then 31 else if m = 3 then 59 else if m = 4 then 90
      else if m = 5 then 120 else if m = 6 then 151 else if m = 7 then 181
      else if m = 8 then 212 else if m = 9 then 243 else if m = 10 then 273
      else if m = 11 then 304 else 334)
     + (if m > 2 \<and> is_leap y then 1 else 0)"

definition ymd2ord :: "int \<Rightarrow> int \<Rightarrow> int \<Rightarrow> int" where
  "ymd2ord y m d = days_before_year y + days_before_month y m + d"

text \<open>Microseconds from the start of day 0 to the fields as they stand.\<close>

definition local_us :: "datetime \<Rightarrow> int" where
  "local_us d =
     ((ymd2ord (year d) (month d) (day d) * 86400 + hour d * 3600 + minute d * 60 + second d)
        * 1000000) + microsecond d"

definition utc_us :: "datetime \<Rightarrow> int \<Rightarrow> int" where
  "utc_us d off = local_us d - off * 1000000"

text \<open>
  \<open>a > b\<close> on datetimes: two naive ones compare by their fields, which for the fields
  of a datetime is the order of \<open>local_us\<close>; two aware ones compare by their instants;
  a naive one with an aware one raises \<open>TypeError\<close>.
\<close>

definition dt_gt :: "datetime \<Rightarrow> datetime \<Rightarrow> exn + bool" where
  "dt_gt a b =
     (case (tzinfo a, tzinfo b) of
        (None, None) \<Rightarrow> Inr (local_us a > local_us b)
      | (Some oa, Some ob) \<Rightarrow> Inr (utc_us a oa > utc_us b ob)
      | _ \<Rightarrow> Inl (TypeError ''can't compare offset-naive and offset-aware datetimes''))"

text \<open>\<open>a - b\<close> on datetimes, a \<open>timedelta\<close>; the same rule for naive and aware.\<close>

definition dt_sub :: "datetime \<Rightarrow> datetime \<Rightarrow> exn + int" where
  "dt_sub a b =
     (case (tzinfo a, tzinfo b) of
        (None, None) \<Rightarrow> Inr (local_us a - local_us b)
      | (Some oa, Some ob) \<Rightarrow> Inr (utc_us a oa - utc_us b ob)
      | _ \<Rightarrow> Inl (TypeError ''can't subtract offset-naive and offset-aware datetimes''))"

definition timedelta_days :: "int \<Rightarrow> int" where
  "timedelta_days n = n * 86400000000"

text \<open>\<open>age.days\<close>: a \<open>timedelta\<close> is normalised with a floor division.\<close>

definition days_of :: "int \<Rightarrow> int" where
  "days_of age = age div 86400000000"

text \<open>
  \<open>strftime('%Y-%m-%d')\<close> and \<open>strftime('%Y-%m-%d %H:%M')\<close>, on the fields as they
  stand, as the C library of Linux prints them under Python: \<open>%Y\<close> is the year in decimal
  with no padding, so four digits from the year 1000 on and fewer below; \<open>%m\<close>, \<open>%d\<close>,
  \<open>%H\<close> and \<open>%M\<close> are padded with zeros to two digits.
\<close>

definition strftime_ymd :: "datetime \<Rightarrow> string" where
  "strftime_ymd d = str_int (year d) @ ''-'' @ zero_pad 2 (month d) @ ''-'' @ zero_pad 2 (day d)"

definition strftime_ymd_hm :: "datetime \<Rightarrow> string" where
  "strftime_ymd_hm d = strftime_ymd d @ '' '' @ zero_pad 2 (hour d) @ '':'' @ zero_pad 2 (minute d)"

definition STALE_DAYS :: int where
  "STALE_DAYS = 30"

subsection \<open>\<open>check_feed\<close>\<close>

text \<open>The counters and the newest date of the loop of lines 45 to 69.\<close>

record tally =
  missing_titles :: nat
  missing_links :: nat
  missing_dates :: nat
  newest_date :: "datetime option"

definition tally0 :: tally where
  "tally0 = \<lparr>missing_titles = 0, missing_links = 0, missing_dates = 0, newest_date = None\<rparr>"

text \<open>
  The \<open>try\<close> block of lines 62 to 69. Both the call of \<open>parsedate_to_datetime\<close> and the
  comparison \<open>dt > newest_date\<close> stand inside it, so whatever either raises is dropped
  by \<open>except Exception: pass\<close> and the newest date stays as it was.
\<close>

definition track_newest :: "(ustr \<Rightarrow> exn + datetime) \<Rightarrow> ustr \<Rightarrow> datetime option \<Rightarrow> datetime option" where
  "track_newest parsedate_to_datetime s newest =
     (case parsedate_to_datetime (strip s) of
        Inl e \<Rightarrow> newest
      | Inr dt \<Rightarrow>
          (case newest of
             None \<Rightarrow> Some dt
           | Some nd \<Rightarrow>
               (case dt_gt dt nd of
                  Inl e \<Rightarrow> newest
                | Inr b \<Rightarrow> if b then Some dt else newest)))"

text \<open>The body of the loop, lines 51 to 69, for one item.\<close>

definition scan_item :: "(ustr \<Rightarrow> exn + datetime) \<Rightarrow> tally \<Rightarrow> element \<Rightarrow> tally" where
  "scan_item parsedate_to_datetime t item =
     (let title = find_child item ''title'';
          link = find_child item ''link'';
          pub_date = find_child item ''pubDate'';
          t1 = (if is_missing title then t\<lparr>missing_titles := missing_titles t + 1\<rparr> else t);
          t2 = (if is_missing link then t1\<lparr>missing_links := missing_links t1 + 1\<rparr> else t1)
      in if is_missing pub_date then t2\<lparr>missing_dates := missing_dates t2 + 1\<rparr>
         else
           (case pub_date of
              None \<Rightarrow> t2
            | Some pd \<Rightarrow>
                (case etext pd of
                   None \<Rightarrow> t2
                 | Some s \<Rightarrow>
                     if s \<noteq> []
                     then t2\<lparr>newest_date := track_newest parsedate_to_datetime s (newest_date t2)\<rparr>
                     else t2)))"

definition scan_items :: "(ustr \<Rightarrow> exn + datetime) \<Rightarrow> element list \<Rightarrow> tally" where
  "scan_items parsedate_to_datetime items = foldl (scan_item parsedate_to_datetime) tally0 items"

text \<open>
  For the statements below: the date that line 65 obtains from an item, \<open>None\<close> when the
  \<open>pubDate\<close> is missing or its text does not parse; and the instant of a datetime in
  microseconds, read in UTC when it is aware.
\<close>

definition item_date :: "(ustr \<Rightarrow> exn + datetime) \<Rightarrow> element \<Rightarrow> datetime option" where
  "item_date parsedate_to_datetime item =
     (case find_child item ''pubDate'' of
        None \<Rightarrow> None
      | Some pd \<Rightarrow>
          if strip (text_or_empty pd) = [] then None
          else (case parsedate_to_datetime (strip (text_or_empty pd)) of
                  Inl e \<Rightarrow> None
                | Inr dt \<Rightarrow> Some dt))"

definition instant :: "datetime \<Rightarrow> int" where
  "instant d = (case tzinfo d of None \<Rightarrow> local_us d | Some off \<Rightarrow> utc_us d off)"

text \<open>The messages of lines 72, 74 and 76, and of line 84.\<close>

definition missing_msg :: "nat \<Rightarrow> nat \<Rightarrow> string \<Rightarrow> string" where
  "missing_msg k n field = str_nat k @ ''/'' @ str_nat n @ '' entries missing '' @ field"

definition stale_msg :: "int \<Rightarrow> datetime \<Rightarrow> string" where
  "stale_msg age nd =
     ''Stale: newest entry is '' @ str_int (days_of age) @ '' days old ('' @ strftime_ymd nd @ '')''"

text \<open>
  Lines 71 to 76: the findings on the fields, as \<open>(warnings, errors)\<close>. Both lists are
  empty when the loop ends, and each \<open>append\<close> adds at the end.
\<close>

definition field_findings :: "tally \<Rightarrow> nat \<Rightarrow> string list \<times> string list" where
  "field_findings t n =
     (let warnings0 = [];
          errors0 = [];
          warnings1 = (if missing_titles t \<noteq> 0
                       then warnings0 @ [missing_msg (missing_titles t) n ''title'']
                       else warnings0);
          errors1 = (if missing_links t \<noteq> 0
                     then errors0 @ [missing_msg (missing_links t) n ''link'']
                     else errors0);
          warnings2 = (if missing_dates t \<noteq> 0
                       then warnings1 @ [missing_msg (missing_dates t) n ''pubDate'']
                       else warnings1)
      in (warnings2, errors1))"

text \<open>
  Lines 79 to 85: the warnings the freshness check appends. \<open>clock\<close> holds the fields
  that \<open>datetime.now(timezone.utc)\<close> reads, and \<open>now\<close> is aware with offset 0 whatever
  they are. A datetime is always true in \<open>if newest_date:\<close>.
\<close>

definition freshness :: "datetime \<Rightarrow> datetime option \<Rightarrow> exn + string list" where
  "freshness clock newest =
     (case newest of
        None \<Rightarrow> Inr []
      | Some nd \<Rightarrow>
          (let now = clock\<lparr>tzinfo := Some 0\<rparr>
           in case dt_sub now nd of
                Inl ex \<Rightarrow> Inl ex
              | Inr age \<Rightarrow>
                  if age > timedelta_days STALE_DAYS then Inr [stale_msg age nd] else Inr []))"

text \<open>Lines 87 to 90: what \<open>--verbose\<close> prints.\<close>

definition verbose_lines :: "bool \<Rightarrow> nat \<Rightarrow> datetime option \<Rightarrow> string list" where
  "verbose_lines verbose n newest =
     (if verbose
      then [''  Entries: '' @ str_nat n] @
           (case newest of None \<Rightarrow> [] | Some nd \<Rightarrow> [''  Newest:  '' @ strftime_ymd_hm nd])
      else [])"

text \<open>
  \<open>check_feed\<close> returns \<open>(ok, warnings, errors)\<close>; the model pairs it with the lines the
  call printed. An exception that leaves the function is \<open>Inl\<close>. The \<open>name\<close> of line 29
  is never used.
\<close>

type_synonym verdict = "bool \<times> string list \<times> string list"

definition check_feed ::
  "(string \<Rightarrow> exn + element) \<Rightarrow> (ustr \<Rightarrow> exn + datetime) \<Rightarrow> datetime \<Rightarrow> string \<Rightarrow> bool
     \<Rightarrow> exn + (verdict \<times> string list)" where
  "check_feed ET_parse parsedate_to_datetime clock feed_path verbose =
     (case ET_parse feed_path of
        Inl ex \<Rightarrow>
          (case ex of
             ParseError e \<Rightarrow> Inr ((False, [], [''Invalid XML: '' @ e]), [])
           | _ \<Rightarrow> Inl ex)
      | Inr root \<Rightarrow>
          (let items = findall_item root
           in if items = [] then Inr ((False, [], [''No <item> entries found'']), [])
              else
                (let t = scan_items parsedate_to_datetime items;
                     n = length items
                 in case field_findings t n of
                      (warnings, errors) \<Rightarrow>
                        (case freshness clock (newest_date t) of
                           Inl ex \<Rightarrow> Inl ex
                         | Inr stale \<Rightarrow>
                             Inr ((errors = [], warnings @ stale, errors),
                                  verbose_lines verbose n (newest_date t))))))"

subsection \<open>\<open>main\<close>\<close>

text \<open>The counters of lines 111 to 113 and what has been printed so far.\<close>

record run_state =
  healthy :: nat
  warn_count :: nat
  error_count :: nat
  stdout :: "string list"

text \<open>
  Lines 120 to 134: one feed is put into its bucket and reported. The chain of lines 120
  to 128 sets the status and adds one to a counter under the same conditions;
  \<open>classify\<close> is the status it sets.
\<close>

definition classify :: "bool \<Rightarrow> string list \<Rightarrow> string" where
  "classify ok warnings =
     (if ok \<and> warnings = [] then ''OK'' else if ok \<and> warnings \<noteq> [] then ''WARN'' else ''FAIL'')"

definition report_feed :: "run_state \<Rightarrow> string \<Rightarrow> verdict \<Rightarrow> run_state" where
  "report_feed st name v =
     (case v of (ok, warnings, errors) \<Rightarrow>
        (let status = classify ok warnings;
             st1 = (if ok \<and> warnings = [] then st\<lparr>healthy := healthy st + 1\<rparr>
                    else if ok \<and> warnings \<noteq> [] then st\<lparr>warn_count := warn_count st + 1\<rparr>
                    else st\<lparr>error_count := error_count st + 1\<rparr>)
         in st1\<lparr>stdout := stdout st1
               @ [''  ['' @ status @ replicate (4 - length status) CHR '' '' @ ''] '' @ name]
               @ map (\<lambda>w. ''         ^ '' @ w) warnings
               @ map (\<lambda>e. ''         ! '' @ e) errors\<rparr>))"

text \<open>
  The loop of lines 117 to 134. Nothing catches what \<open>check_feed\<close> raises: the exception
  ends the loop, and the model keeps it with the counters and the output as they stood
  before the call.
\<close>

fun run_feeds ::
  "(string \<Rightarrow> exn + element) \<Rightarrow> (ustr \<Rightarrow> exn + datetime) \<Rightarrow> datetime \<Rightarrow> bool
     \<Rightarrow> string list \<Rightarrow> run_state \<Rightarrow> (exn \<times> run_state) + run_state" where
  "run_feeds ET_parse parsedate_to_datetime clock verbose [] st = Inr st"
| "run_feeds ET_parse parsedate_to_datetime clock verbose (feed_path # feeds) st =
     (case check_feed ET_parse parsedate_to_datetime clock feed_path verbose of
        Inl ex \<Rightarrow> Inl (ex, st)
      | Inr (v, printed) \<Rightarrow>
          run_feeds ET_parse parsedate_to_datetime clock verbose feeds
            (report_feed (st\<lparr>stdout := stdout st @ printed\<rparr>) feed_path v))"

text \<open>
  The status that the loop gives a feed, for the statements below: the tag of lines 120
  to 128 on what \<open>check_feed\<close> returns, and \<open>None\<close> when \<open>check_feed\<close> raises.
\<close>

definition status_of ::
  "(string \<Rightarrow> exn + element) \<Rightarrow> (ustr \<Rightarrow> exn + datetime) \<Rightarrow> datetime \<Rightarrow> bool \<Rightarrow> string
     \<Rightarrow> string option" where
  "status_of ET_parse parsedate_to_datetime clock verbose feed_path =
     (case check_feed ET_parse parsedate_to_datetime clock feed_path verbose of
        Inl ex \<Rightarrow> None
      | Inr (v, printed) \<Rightarrow> (case v of (ok, warnings, errors) \<Rightarrow> Some (classify ok warnings)))"

text \<open>
  How the process ends: \<open>sys.exit(n)\<close>, or an exception nothing caught. The interpreter
  prints the traceback of an uncaught exception and ends the process with status 1.
\<close>

datatype outcome = Exit int | Uncaught exn

fun exit_status :: "outcome \<Rightarrow> int" where
  "exit_status (Exit n) = n"
| "exit_status (Uncaught ex) = 1"

definition summary :: "run_state \<Rightarrow> nat \<Rightarrow> string list" where
  "summary st total_feeds =
     [CHR 0x0A # ''--- Summary ---'',
      ''  Healthy: '' @ str_nat (healthy st) @ ''/'' @ str_nat total_feeds]
     @ (if warn_count st \<noteq> 0
        then [''  Warnings: '' @ str_nat (warn_count st) @ ''/'' @ str_nat total_feeds] else [])
     @ (if error_count st \<noteq> 0
        then [''  Errors: '' @ str_nat (error_count st) @ ''/'' @ str_nat total_feeds] else [])"

text \<open>
  \<open>main\<close>, lines 97 to 143. \<open>parse_args\<close> is what \<open>parser.parse_args()\<close> of line 99 does on
  the command line: \<open>Inr verbose\<close> when it returns, with \<open>verbose\<close> the value of
  \<open>args.verbose\<close>, and \<open>Inl (n, printed)\<close> when it ends the process itself, with status
  0 after printing the help for \<open>--help\<close>, and with status 2 for an argument it does not
  accept (the usage message goes to the error stream, so nothing is printed here).
  \<open>dir_exists\<close> is \<open>FEEDS_DIR.exists()\<close> and \<open>globbed\<close> the names that
  \<open>FEEDS_DIR.glob("feed_*.xml")\<close> yields, in any order; \<open>sorted\<close> orders them. The
  result is how the process ends and everything it printed.
\<close>

definition main ::
  "string \<Rightarrow> bool \<Rightarrow> string list \<Rightarrow> (string \<Rightarrow> exn + element) \<Rightarrow> (ustr \<Rightarrow> exn + datetime)
     \<Rightarrow> datetime \<Rightarrow> (int \<times> string list) + bool \<Rightarrow> outcome \<times> string list" where
  "main FEEDS_DIR dir_exists globbed ET_parse parsedate_to_datetime clock parse_args =
     (case parse_args of
        Inl (n, printed) \<Rightarrow> (Exit n, printed)
      | Inr verbose \<Rightarrow>
          if \<not> dir_exists then (Exit 1, [''Feeds directory not found: '' @ FEEDS_DIR])
          else
            (let feeds = sort globbed
             in if feeds = [] then (Exit 1, [''No feed files found.''])
                else
                  (let total_feeds = length feeds;
                       st0 = \<lparr>healthy = 0, warn_count = 0, error_count = 0,
                              stdout = [''Checking '' @ str_nat total_feeds @ '' feeds in ''
                                        @ FEEDS_DIR @ [CHR 0x0A]]\<rparr>
                   in case run_feeds ET_parse parsedate_to_datetime clock verbose feeds st0 of
                        Inl (ex, st) \<Rightarrow> (Uncaught ex, stdout st)
                      | Inr st \<Rightarrow>
                          (Exit (if error_count st \<noteq> 0 then 1 else 0),
                           stdout st @ summary st total_feeds))))"

subsection \<open>Sample inputs\<close>

text \<open>
  Concrete feeds for the examples below. \<open>sample_parsedate\<close> gives what
  \<open>parsedate_to_datetime\<close> returns on the date texts they use: an aware datetime for a
  zone of \<open>+0000\<close>, \<open>+0200\<close> or \<open>-0200\<close>, with the offset in seconds, a naive one for
  \<open>-0000\<close> or no zone, and \<open>ValueError\<close> for a text that is no date.
  The sample clock reads 2024-03-01 12:00:00 UTC.
\<close>

definition mk_datetime :: "int \<Rightarrow> int \<Rightarrow> int \<Rightarrow> int \<Rightarrow> int \<Rightarrow> int \<Rightarrow> int option \<Rightarrow> datetime" where
  "mk_datetime y mo d h mi s tz =
     \<lparr>year = y, month = mo, day = d, hour = h, minute = mi, second = s, microsecond = 0,
      tzinfo = tz\<rparr>"

definition sample_parsedate :: "ustr \<Rightarrow> exn + datetime" where
  "sample_parsedate s =
     (if s = ustr_of ''Tue, 16 Jan 2024 12:00:00 +0000''
      then Inr (mk_datetime 2024 1 16 12 0 0 (Some 0))
      else if s = ustr_of ''Tue, 20 Feb 2024 12:00:00 +0000''
      then Inr (mk_datetime 2024 2 20 12 0 0 (Some 0))
      else if s = ustr_of ''Wed, 01 Jan 2020 00:00:00 +0000''
      then Inr (mk_datetime 2020 1 1 0 0 0 (Some 0))
      else if s = ustr_of ''Wed, 28 Feb 2024 09:30:00 -0000''
      then Inr (mk_datetime 2024 2 28 9 30 0 None)
      else if s = ustr_of ''Wed, 28 Feb 2024 09:30:00''
      then Inr (mk_datetime 2024 2 28 9 30 0 None)
      else if s = ustr_of ''Tue, 16 Jan 2024 12:00:00 -0000''
      then Inr (mk_datetime 2024 1 16 12 0 0 None)
      else if s = ustr_of ''Wed, 31 Jan 2024 13:00:00 +0200''
      then Inr (mk_datetime 2024 1 31 13 0 0 (Some 7200))
      else if s = ustr_of ''Wed, 31 Jan 2024 11:00:00 -0200''
      then Inr (mk_datetime 2024 1 31 11 0 0 (Some (- 7200)))
      else if s = ustr_of ''01 Jan 999 00:00:00 +0000''
      then Inr (mk_datetime 999 1 1 0 0 0 (Some 0))
      else Inl (ValueError ''Invalid date value or format''))"

definition sample_clock :: datetime where
  "sample_clock = mk_datetime 2024 3 1 12 0 0 None"

definition leaf :: "string \<Rightarrow> string \<Rightarrow> element" where
  "leaf t s = Element t (Some (ustr_of s)) []"

definition entry :: "string \<Rightarrow> string \<Rightarrow> string \<Rightarrow> element" where
  "entry t l d = Element ''item'' None [leaf ''title'' t, leaf ''link'' l, leaf ''pubDate'' d]"

definition rss :: "element list \<Rightarrow> element" where
  "rss items = Element ''rss'' None [Element ''channel'' None (leaf ''title'' ''Sample'' # items)]"

text \<open>
  What \<open>ET.parse\<close> does on five sample paths: \<open>feed_a.xml\<close> is a directory, so opening
  it raises \<open>IsADirectoryError\<close>, an \<open>OSError\<close>; \<open>feed_b.xml\<close> is a feed with one fresh
  entry; \<open>feed_c.xml\<close> is an empty file, on which the parser raises \<open>ParseError\<close>;
  \<open>feed_d.xml\<close> is a feed whose one entry is 45 days old; \<open>feed_e.xml\<close> is a file the
  process may not read, so opening it raises \<open>PermissionError\<close>, an \<open>OSError\<close>.
\<close>

definition sample_ET_parse :: "string \<Rightarrow> exn + element" where
  "sample_ET_parse p =
     (if p = ''feed_a.xml'' then Inl (OSError ''[Errno 21] Is a directory'')
      else if p = ''feed_b.xml''
      then Inr (rss [entry ''B'' ''http://b'' ''Tue, 20 Feb 2024 12:00:00 +0000''])
      else if p = ''feed_c.xml'' then Inl (ParseError ''no element found: line 1, column 0'')
      else if p = ''feed_d.xml''
      then Inr (rss [entry ''D'' ''http://d'' ''Tue, 16 Jan 2024 12:00:00 +0000''])
      else if p = ''feed_e.xml'' then Inl (OSError ''[Errno 13] Permission denied'')
      else Inl (OSError ''[Errno 2] No such file or directory''))"

section \<open>Properties\<close>

subsection \<open>Evaluation on concrete inputs\<close>

text \<open>The defining equations that the simplifier unfolds to run the model on a sample.\<close>

lemma replicate_two: "replicate 2 c = [c, c]"
  by (simp add: numeral_2_eq_2)

lemma replicate_three: "replicate 3 c = [c, c, c]"
  by (simp add: numeral_3_eq_3)

lemmas date_defs = dt_sub_def dt_gt_def utc_us_def local_us_def ymd2ord_def days_before_year_def
  days_before_month_def is_leap_def timedelta_days_def STALE_DAYS_def days_of_def mk_datetime_def

lemmas str_defs = str_int_def str_nat.simps digit_char_def zero_pad_def strftime_ymd_def
  strftime_ymd_hm_def missing_msg_def stale_msg_def replicate_two replicate_three

lemmas tree_defs = findall_item_def find_child_def is_missing_def text_or_empty_def strip_def
  isspace_def ustr_of_def leaf_def entry_def rss_def

lemmas check_defs = check_feed_def scan_items_def scan_item_def track_newest_def tally0_def
  field_findings_def freshness_def verbose_lines_def sample_parsedate_def sample_clock_def

subsection \<open>The verdict of \<open>check_feed\<close>\<close>

text \<open>
  C1. Whenever \<open>check_feed\<close> returns \<open>(ok, warnings, errors)\<close>, \<open>ok\<close> is true exactly when
  \<open>errors\<close> is empty: on the parse-error return, on the no-items return and on the final
  return alike.
\<close>

theorem check_feed_ok_iff_no_errors:
  "check_feed ET_parse parsedate_to_datetime clock feed_path verbose
     = Inr ((ok, warnings, errors), printed)
   \<Longrightarrow> ok = (errors = [])"
  by (auto simp: check_feed_def Let_def split: sum.splits exn.splits if_splits prod.splits)

text \<open>
  A feed whose only item has a blank link: \<open>ok\<close> is false and there is one error.
\<close>

theorem check_feed_ok_iff_no_errors_witness:
  "check_feed (\<lambda>p. Inr (rss [entry ''A'' '' '' ''Tue, 20 Feb 2024 12:00:00 +0000'']))
     sample_parsedate sample_clock ''feed_a.xml'' False
     = Inr ((False, [], [''1/1 entries missing link'']), [])
   \<and> False = ([''1/1 entries missing link''] = [])"
proof -
  have run: "check_feed (\<lambda>p. Inr (rss [entry ''A'' '' '' ''Tue, 20 Feb 2024 12:00:00 +0000'']))
     sample_parsedate sample_clock ''feed_a.xml'' False
     = Inr ((False, [], [''1/1 entries missing link'']), [])"
    by (simp add: date_defs str_defs tree_defs check_defs)
  from check_feed_ok_iff_no_errors [OF run] run show ?thesis by simp
qed

text \<open>
  C2. A feed that parses and has no \<open>item\<close> element below its root returns \<open>ok = False\<close>,
  no warnings and the single error \<open>No <item> entries found\<close>, whatever the date parser,
  the clock and \<open>verbose\<close> are: nothing after line 42 runs and nothing is printed. The
  text of the error is the one of line 41, not \<open>No entries found\<close>.
\<close>

theorem check_feed_no_items:
  "ET_parse feed_path = Inr root \<Longrightarrow> findall_item root = []
   \<Longrightarrow> check_feed ET_parse parsedate_to_datetime clock feed_path verbose
         = Inr ((False, [], [''No <item> entries found'']), [])"
  by (simp add: check_feed_def)

theorem check_feed_no_items_witness:
  "findall_item (rss []) = []
   \<and> check_feed (\<lambda>p. Inr (rss [])) sample_parsedate sample_clock ''feed_a.xml'' True
       = Inr ((False, [], [''No <item> entries found'']), [])"
proof -
  have none: "findall_item (rss []) = []"
    by (simp add: tree_defs)
  from check_feed_no_items [of "\<lambda>p. Inr (rss [])" "''feed_a.xml''" "rss []", OF _ none] none
  show ?thesis by simp
qed

theorem check_feed_no_items_text_counterexample:
  "findall_item (rss []) = []
   \<and> check_feed (\<lambda>p. Inr (rss [])) sample_parsedate sample_clock ''feed_a.xml'' False
       \<noteq> Inr ((False, [], [''No entries found'']), [])"
  by (simp add: tree_defs check_feed_def)

text \<open>
  C3. When \<open>ET.parse\<close> raises \<open>ParseError\<close>, \<open>check_feed\<close> returns \<open>ok = False\<close>, no
  warnings and the single error \<open>Invalid XML: \<close> followed by the parser's message, and
  the loop of \<open>main\<close> reports the file and goes on with the files that remain.
\<close>

theorem check_feed_parse_error:
  "ET_parse feed_path = Inl (ParseError e)
   \<Longrightarrow> check_feed ET_parse parsedate_to_datetime clock feed_path verbose
         = Inr ((False, [], [''Invalid XML: '' @ e]), [])
       \<and> run_feeds ET_parse parsedate_to_datetime clock verbose (feed_path # feeds) st
         = run_feeds ET_parse parsedate_to_datetime clock verbose feeds
             (report_feed st feed_path (False, [], [''Invalid XML: '' @ e]))"
  by (simp add: check_feed_def)

theorem check_feed_parse_error_witness:
  "sample_ET_parse ''feed_c.xml'' = Inl (ParseError ''no element found: line 1, column 0'')
   \<and> check_feed sample_ET_parse sample_parsedate sample_clock ''feed_c.xml'' False
       = Inr ((False, [], [''Invalid XML: no element found: line 1, column 0'']), [])
   \<and> main ''feeds'' True [''feed_c.xml'', ''feed_b.xml''] sample_ET_parse sample_parsedate
         sample_clock (Inr False)
       = (Exit 1,
          [''Checking 2 feeds in feeds'' @ [CHR 0x0A],
           ''  [OK  ] feed_b.xml'',
           ''  [FAIL] feed_c.xml'',
           ''         ! Invalid XML: no element found: line 1, column 0'',
           CHR 0x0A # ''--- Summary ---'',
           ''  Healthy: 1/2'',
           ''  Errors: 1/2''])"
proof -
  have raised: "sample_ET_parse ''feed_c.xml''
      = Inl (ParseError ''no element found: line 1, column 0'')"
    by (simp add: sample_ET_parse_def)
  have whole: "main ''feeds'' True [''feed_c.xml'', ''feed_b.xml''] sample_ET_parse
        sample_parsedate sample_clock (Inr False)
      = (Exit 1,
          [''Checking 2 feeds in feeds'' @ [CHR 0x0A],
           ''  [OK  ] feed_b.xml'',
           ''  [FAIL] feed_c.xml'',
           ''         ! Invalid XML: no element found: line 1, column 0'',
           CHR 0x0A # ''--- Summary ---'',
           ''  Healthy: 1/2'',
           ''  Errors: 1/2''])"
    by (simp add: main_def less_eq_char_def less_char_def Let_def date_defs str_defs tree_defs
        check_defs sample_ET_parse_def report_feed_def classify_def summary_def)
  from check_feed_parse_error [where ET_parse = sample_ET_parse and feed_path = "''feed_c.xml''"
      and parsedate_to_datetime = sample_parsedate and clock = sample_clock
      and verbose = False, OF raised] raised whole
  show ?thesis by simp
qed

text \<open>
  No other exception of \<open>ET.parse\<close> is caught, by \<open>check_feed\<close> or by \<open>main\<close>: with a
  directory named \<open>feed_a.xml\<close> beside a good feed, \<open>check_feed\<close> raises \<open>OSError\<close> and
  the run ends there, before \<open>feed_b.xml\<close> is checked or reported.
\<close>

theorem check_feed_os_error_counterexample:
  "check_feed sample_ET_parse sample_parsedate sample_clock ''feed_a.xml'' False
     = Inl (OSError ''[Errno 21] Is a directory'')
   \<and> main ''feeds'' True [''feed_b.xml'', ''feed_a.xml''] sample_ET_parse sample_parsedate
         sample_clock (Inr False)
       = (Uncaught (OSError ''[Errno 21] Is a directory''),
          [''Checking 2 feeds in feeds'' @ [CHR 0x0A]])"
  by (simp add: main_def less_eq_char_def less_char_def Let_def str_defs check_feed_def
      sample_ET_parse_def)

subsection \<open>Findings on a feed with entries\<close>

text \<open>
  On a feed that parses and has items, \<open>check_feed\<close> is the freshness check on top of
  the findings on the fields.
\<close>

lemma check_feed_items:
  assumes "ET_parse feed_path = Inr root" and "findall_item root \<noteq> []"
  shows "check_feed ET_parse parsedate_to_datetime clock feed_path verbose =
     (case freshness clock (newest_date (scan_items parsedate_to_datetime (findall_item root))) of
        Inl ex \<Rightarrow> Inl ex
      | Inr stale \<Rightarrow>
          Inr ((snd (field_findings (scan_items parsedate_to_datetime (findall_item root))
                      (length (findall_item root))) = [],
                fst (field_findings (scan_items parsedate_to_datetime (findall_item root))
                      (length (findall_item root))) @ stale,
                snd (field_findings (scan_items parsedate_to_datetime (findall_item root))
                      (length (findall_item root)))),
               verbose_lines verbose (length (findall_item root))
                 (newest_date (scan_items parsedate_to_datetime (findall_item root)))))"
  using assms by (cases "field_findings (scan_items parsedate_to_datetime (findall_item root)) (length (findall_item root))") (simp add: check_feed_def Let_def split: sum.splits)

lemma freshness_None: "freshness clock None = Inr []"
  by (simp add: freshness_def)

lemma freshness_Some:
  "freshness clock (Some nd) =
     (case dt_sub (clock\<lparr>tzinfo := Some 0\<rparr>) nd of
        Inl ex \<Rightarrow> Inl ex
      | Inr age \<Rightarrow> Inr (if age > timedelta_days STALE_DAYS then [stale_msg age nd] else []))"
  by (simp add: freshness_def Let_def split: sum.splits)

text \<open>
  A message on a missing field begins with a digit, so it is never a staleness warning.
\<close>

lemma str_nat_head: "\<exists>d ds. str_nat n = d # ds \<and> d \<noteq> CHR ''S''"
proof (induction n rule: str_nat.induct)
  case (1 n)
  show ?case
  proof (cases "n < 10")
    case True
    then show ?thesis by (simp add: str_nat.simps [of n] digit_char_def)
  next
    case False
    with 1 obtain d ds where "str_nat (n div 10) = d # ds" and "d \<noteq> CHR ''S''" by auto
    with False show ?thesis by (simp add: str_nat.simps [of n])
  qed
qed

lemma missing_msg_not_stale: "missing_msg k n field \<noteq> stale_msg age nd"
proof -
  obtain d ds where "str_nat k = d # ds" and "d \<noteq> CHR ''S''"
    using str_nat_head by blast
  then show ?thesis by (simp add: missing_msg_def stale_msg_def)
qed

lemma fst_field_findings:
  "fst (field_findings t n) =
     (if missing_titles t \<noteq> 0 then [missing_msg (missing_titles t) n ''title''] else [])
     @ (if missing_dates t \<noteq> 0 then [missing_msg (missing_dates t) n ''pubDate''] else [])"
  by (simp add: field_findings_def Let_def)

lemma snd_field_findings:
  "snd (field_findings t n) =
     (if missing_links t \<noteq> 0 then [missing_msg (missing_links t) n ''link''] else [])"
  by (simp add: field_findings_def Let_def)

lemma field_findings_not_stale: "stale_msg age nd \<notin> set (fst (field_findings t n))"
proof -
  have "stale_msg age nd \<noteq> missing_msg k n field" for k field
    using missing_msg_not_stale [of k n field age nd] by simp
  then show ?thesis by (simp add: fst_field_findings)
qed

text \<open>Each counter of the loop counts the items whose field is missing.\<close>

lemma scan_item_counts:
  "missing_titles (scan_item pd t item)
     = missing_titles t + (if is_missing (find_child item ''title'') then 1 else 0)"
  "missing_links (scan_item pd t item)
     = missing_links t + (if is_missing (find_child item ''link'') then 1 else 0)"
  "missing_dates (scan_item pd t item)
     = missing_dates t + (if is_missing (find_child item ''pubDate'') then 1 else 0)"
  by (simp_all add: scan_item_def Let_def split: option.splits)

lemma foldl_scan_counts:
  "missing_titles (foldl (scan_item pd) t items)
     = missing_titles t + length (filter (\<lambda>i. is_missing (find_child i ''title'')) items)"
  "missing_links (foldl (scan_item pd) t items)
     = missing_links t + length (filter (\<lambda>i. is_missing (find_child i ''link'')) items)"
  "missing_dates (foldl (scan_item pd) t items)
     = missing_dates t + length (filter (\<lambda>i. is_missing (find_child i ''pubDate'')) items)"
  by (induction items arbitrary: t; simp add: scan_item_counts)+

lemma scan_items_counts:
  "missing_titles (scan_items pd items)
     = length (filter (\<lambda>i. is_missing (find_child i ''title'')) items)"
  "missing_links (scan_items pd items)
     = length (filter (\<lambda>i. is_missing (find_child i ''link'')) items)"
  "missing_dates (scan_items pd items)
     = length (filter (\<lambda>i. is_missing (find_child i ''pubDate'')) items)"
  by (simp_all add: scan_items_def foldl_scan_counts tally0_def)


lemma freshness_shape:
  "freshness clock newest = Inr stale \<Longrightarrow> stale = [] \<or> (\<exists>age nd. stale = [stale_msg age nd])"
  by (auto simp: freshness_def Let_def split: option.splits sum.splits if_splits)

lemma missing_msg_no_stale_prefix: "take 6 (missing_msg k n field) \<noteq> ''Stale:''"
proof -
  obtain d ds where "str_nat k = d # ds" and "d \<noteq> CHR ''S''"
    using str_nat_head by blast
  then show ?thesis by (simp add: missing_msg_def)
qed

lemma field_findings_no_stale_prefix:
  "\<forall>w\<in>set (fst (field_findings t n)). take 6 w \<noteq> ''Stale:''"
  by (auto simp: fst_field_findings missing_msg_no_stale_prefix)

lemma now_minus_aware:
  "tzinfo nd = Some off
   \<Longrightarrow> dt_sub (clock\<lparr>tzinfo := Some 0\<rparr>) nd
       = Inr (local_us clock - (local_us nd - off * 1000000))"
  by (simp add: dt_sub_def utc_us_def local_us_def)

text \<open>
  C6. For a feed with entries whose newest date, if there is one, is aware, \<open>check_feed\<close>
  returns, and its warnings are the findings on the fields, followed by the one warning
  \<open>Stale: newest entry is <days> days old (<year>-<month>-<day>)\<close> exactly when a newest
  date was determined and its age is more than 30 days. The age is the instant \<open>now\<close>
  minus the instant of the newest date, each in UTC, and \<open>days\<close> its whole days; the
  date is printed from the fields of the newest date as they stand, the year with no
  padding and the month and the day with two digits. With no newest date, or an age of
  30 days or less, nothing is appended. No finding on a field begins with \<open>Stale:\<close>.
\<close>

theorem stale_warning_iff_older_than_30_days:
  assumes parsed: "ET_parse feed_path = Inr root"
    and items: "findall_item root \<noteq> []"
    and aware: "\<forall>nd. newest_date (scan_items parsedate_to_datetime (findall_item root)) = Some nd
                  \<longrightarrow> tzinfo nd \<noteq> None"
  shows "\<exists>ok warnings errors printed.
       check_feed ET_parse parsedate_to_datetime clock feed_path verbose
         = Inr ((ok, warnings, errors), printed)
     \<and> (case newest_date (scan_items parsedate_to_datetime (findall_item root)) of
          None \<Rightarrow>
            warnings = fst (field_findings (scan_items parsedate_to_datetime (findall_item root))
                              (length (findall_item root)))
        | Some nd \<Rightarrow>
            (case tzinfo nd of
               None \<Rightarrow> False
             | Some off \<Rightarrow>
                 warnings =
                   fst (field_findings (scan_items parsedate_to_datetime (findall_item root))
                          (length (findall_item root)))
                   @ (if 30 * 86400000000 < local_us clock - (local_us nd - off * 1000000)
                      then [''Stale: newest entry is ''
                            @ str_int ((local_us clock - (local_us nd - off * 1000000))
                                         div 86400000000)
                            @ '' days old ('' @ str_int (year nd) @ ''-''
                            @ zero_pad 2 (month nd) @ ''-'' @ zero_pad 2 (day nd) @ '')'']
                      else [])))
     \<and> (\<forall>w\<in>set (fst (field_findings (scan_items parsedate_to_datetime (findall_item root))
                           (length (findall_item root)))).
           take 6 w \<noteq> ''Stale:'')"
proof -
  let ?t = "scan_items parsedate_to_datetime (findall_item root)"
  let ?n = "length (findall_item root)"
  note eq = check_feed_items [of ET_parse feed_path root parsedate_to_datetime clock verbose,
      OF parsed items]
  note apart = field_findings_no_stale_prefix [of ?t ?n]
  show ?thesis
  proof (cases "newest_date ?t")
    case None
    have chk: "check_feed ET_parse parsedate_to_datetime clock feed_path verbose
        = Inr ((snd (field_findings ?t ?n) = [], fst (field_findings ?t ?n),
                snd (field_findings ?t ?n)), verbose_lines verbose ?n None)"
      unfolding eq None by (simp add: freshness_None)
    show ?thesis
    proof (intro exI conjI)
      show "check_feed ET_parse parsedate_to_datetime clock feed_path verbose
        = Inr ((snd (field_findings ?t ?n) = [], fst (field_findings ?t ?n),
                snd (field_findings ?t ?n)), verbose_lines verbose ?n None)"
        by (rule chk)
    qed (simp_all add: None apart)
  next
    case (Some nd)
    with aware obtain off where off: "tzinfo nd = Some off" by auto
    let ?age = "local_us clock - (local_us nd - off * 1000000)"
    let ?stale = "if 30 * 86400000000 < ?age
                      then [''Stale: newest entry is ''
                            @ str_int (?age div 86400000000)
                            @ '' days old ('' @ str_int (year nd) @ ''-''
                            @ zero_pad 2 (month nd) @ ''-'' @ zero_pad 2 (day nd) @ '')'']
                      else []"
    have fresh: "freshness clock (Some nd) = Inr ?stale"
      by (simp add: freshness_Some now_minus_aware [OF off] timedelta_days_def STALE_DAYS_def
          stale_msg_def days_of_def strftime_ymd_def)
    have chk: "check_feed ET_parse parsedate_to_datetime clock feed_path verbose
        = Inr ((snd (field_findings ?t ?n) = [], fst (field_findings ?t ?n) @ ?stale,
                snd (field_findings ?t ?n)), verbose_lines verbose ?n (Some nd))"
      unfolding eq Some fresh by simp
    show ?thesis
    proof (intro exI conjI)
      show "check_feed ET_parse parsedate_to_datetime clock feed_path verbose
        = Inr ((snd (field_findings ?t ?n) = [], fst (field_findings ?t ?n) @ ?stale,
                snd (field_findings ?t ?n)), verbose_lines verbose ?n (Some nd))"
        by (rule chk)
    qed (simp_all add: Some off apart)
  qed
qed

text \<open>
  On 2024-03-01 12:00 UTC: an entry of 2024-01-16 12:00 \<open>+0000\<close> is 45 days old and the
  feed gets exactly the staleness warning, with \<open>ok\<close> true; an entry of 2024-02-20 12:00
  \<open>+0000\<close> is 10 days old and the feed gets none. An entry of 2024-01-31 13:00 \<open>+0200\<close>
  is 30 days and one hour old, so the feed is stale; an entry of 2024-01-31 11:00
  \<open>-0200\<close> is 29 days and 23 hours old, so it is not.
\<close>

theorem stale_warning_iff_older_than_30_days_witness:
  "check_feed (\<lambda>p. Inr (rss [entry ''A'' ''http://a'' ''Tue, 16 Jan 2024 12:00:00 +0000'']))
     sample_parsedate sample_clock ''feed_a.xml'' False
     = Inr ((True, [''Stale: newest entry is 45 days old (2024-01-16)''], []), [])
   \<and> check_feed (\<lambda>p. Inr (rss [entry ''B'' ''http://b'' ''Tue, 20 Feb 2024 12:00:00 +0000'']))
       sample_parsedate sample_clock ''feed_b.xml'' False
       = Inr ((True, [], []), [])
   \<and> check_feed (\<lambda>p. Inr (rss [entry ''C'' ''http://c'' ''Wed, 31 Jan 2024 13:00:00 +0200'']))
       sample_parsedate sample_clock ''feed_c.xml'' False
       = Inr ((True, [''Stale: newest entry is 30 days old (2024-01-31)''], []), [])
   \<and> check_feed (\<lambda>p. Inr (rss [entry ''D'' ''http://d'' ''Wed, 31 Jan 2024 11:00:00 -0200'']))
       sample_parsedate sample_clock ''feed_d.xml'' False
       = Inr ((True, [], []), [])
   \<and> local_us sample_clock - (local_us (mk_datetime 2024 1 31 13 0 0 (Some 7200)) - 7200 * 1000000)
       = 30 * 86400000000 + 3600000000"
proof -
  let ?a = "rss [entry ''A'' ''http://a'' ''Tue, 16 Jan 2024 12:00:00 +0000'']"
  let ?b = "rss [entry ''B'' ''http://b'' ''Tue, 20 Feb 2024 12:00:00 +0000'']"
  let ?c = "rss [entry ''C'' ''http://c'' ''Wed, 31 Jan 2024 13:00:00 +0200'']"
  let ?d = "rss [entry ''D'' ''http://d'' ''Wed, 31 Jan 2024 11:00:00 -0200'']"
  have items: "findall_item ?a \<noteq> []" "findall_item ?c \<noteq> []"
    by (simp_all add: tree_defs)
  have newest:
    "newest_date (scan_items sample_parsedate (findall_item ?a))
       = Some (mk_datetime 2024 1 16 12 0 0 (Some 0))"
    "newest_date (scan_items sample_parsedate (findall_item ?c))
       = Some (mk_datetime 2024 1 31 13 0 0 (Some 7200))"
    by (simp_all add: tree_defs check_defs mk_datetime_def)
  have aware:
    "\<forall>nd. newest_date (scan_items sample_parsedate (findall_item ?a)) = Some nd
       \<longrightarrow> tzinfo nd \<noteq> None"
    "\<forall>nd. newest_date (scan_items sample_parsedate (findall_item ?c)) = Some nd
       \<longrightarrow> tzinfo nd \<noteq> None"
    unfolding newest by (simp_all add: mk_datetime_def)
  have run_a: "check_feed (\<lambda>p. Inr ?a) sample_parsedate sample_clock ''feed_a.xml'' False
      = Inr ((True, [''Stale: newest entry is 45 days old (2024-01-16)''], []), [])"
    by (simp add: date_defs str_defs tree_defs check_defs)
  have run_b: "check_feed (\<lambda>p. Inr ?b) sample_parsedate sample_clock ''feed_b.xml'' False
      = Inr ((True, [], []), [])"
    by (simp add: date_defs str_defs tree_defs check_defs)
  have run_c: "check_feed (\<lambda>p. Inr ?c) sample_parsedate sample_clock ''feed_c.xml'' False
      = Inr ((True, [''Stale: newest entry is 30 days old (2024-01-31)''], []), [])"
    by (simp add: date_defs str_defs tree_defs check_defs)
  have run_d: "check_feed (\<lambda>p. Inr ?d) sample_parsedate sample_clock ''feed_d.xml'' False
      = Inr ((True, [], []), [])"
    by (simp add: date_defs str_defs tree_defs check_defs)
  have age: "local_us sample_clock
        - (local_us (mk_datetime 2024 1 31 13 0 0 (Some 7200)) - 7200 * 1000000)
      = 30 * 86400000000 + 3600000000"
    by (simp add: date_defs sample_clock_def)
  from stale_warning_iff_older_than_30_days
         [where ET_parse = "\<lambda>p. Inr ?a" and root = ?a and parsedate_to_datetime = sample_parsedate
            and clock = sample_clock and feed_path = "''feed_a.xml''" and verbose = False,
          OF refl items(1) aware(1)]
       stale_warning_iff_older_than_30_days
         [where ET_parse = "\<lambda>p. Inr ?c" and root = ?c and parsedate_to_datetime = sample_parsedate
            and clock = sample_clock and feed_path = "''feed_c.xml''" and verbose = False,
          OF refl items(2) aware(2)]
       run_a run_b run_c run_d age
  show ?thesis by simp
qed

text \<open>
  Two feeds on which the claim as first stated fails. The only entry of the first is of
  2024-01-16 12:00 with zone \<open>-0000\<close>: a newest date is determined, it lies 45 days
  before the clock, and \<open>check_feed\<close> raises at line 81 instead of returning the warning.
  The only entry of the second is of the year 999: the warning is returned and its date
  reads \<open>999-01-01\<close>, not four digits of year.
\<close>

theorem stale_warning_counterexample:
  "newest_date (scan_items sample_parsedate (findall_item
       (rss [entry ''A'' ''http://a'' ''Tue, 16 Jan 2024 12:00:00 -0000''])))
     = Some (mk_datetime 2024 1 16 12 0 0 None)
   \<and> local_us sample_clock - local_us (mk_datetime 2024 1 16 12 0 0 None) = 45 * 86400000000
   \<and> check_feed (\<lambda>p. Inr (rss [entry ''A'' ''http://a'' ''Tue, 16 Jan 2024 12:00:00 -0000'']))
       sample_parsedate sample_clock ''feed_a.xml'' False
     = Inl (TypeError ''can't subtract offset-naive and offset-aware datetimes'')
   \<and> check_feed (\<lambda>p. Inr (rss [entry ''B'' ''http://b'' ''01 Jan 999 00:00:00 +0000'']))
       sample_parsedate sample_clock ''feed_b.xml'' False
     = Inr ((True, [''Stale: newest entry is 374433 days old (999-01-01)''], []), [])"
  by (simp add: date_defs str_defs tree_defs check_defs)

text \<open>
  The findings on the fields, on every return of \<open>check_feed\<close> for a feed with entries.
  A field of an item is missing exactly when \<open>find\<close> gives no child of that tag or the
  text of the child it gives is empty after \<open>strip\<close>. The errors are the message
  \<open><missing>/<total> entries missing link\<close> when some link is missing and nothing
  otherwise, and \<open>ok\<close> is true exactly when no link is missing; missing titles and
  missing pubDates give the warnings of the same shape, which come before the staleness
  warning if there is one, and never an error.
\<close>

lemma missing_field_findings:
  assumes parsed: "ET_parse feed_path = Inr root"
    and items: "findall_item root \<noteq> []"
    and returns: "check_feed ET_parse parsedate_to_datetime clock feed_path verbose
                    = Inr ((ok, warnings, errors), printed)"
  shows "is_missing (find_child item field)
           = (find_child item field = None
              \<or> (\<exists>c. find_child item field = Some c \<and> strip (text_or_empty c) = []))
       \<and> errors =
           (if length (filter (\<lambda>i. is_missing (find_child i ''link'')) (findall_item root)) = 0
            then []
            else [missing_msg
                    (length (filter (\<lambda>i. is_missing (find_child i ''link'')) (findall_item root)))
                    (length (findall_item root)) ''link''])
       \<and> ok = (length (filter (\<lambda>i. is_missing (find_child i ''link'')) (findall_item root)) = 0)
       \<and> (\<exists>stale.
             warnings =
               (if length (filter (\<lambda>i. is_missing (find_child i ''title'')) (findall_item root)) = 0
                then []
                else [missing_msg
                        (length (filter (\<lambda>i. is_missing (find_child i ''title'')) (findall_item root)))
                        (length (findall_item root)) ''title''])
               @ (if length (filter (\<lambda>i. is_missing (find_child i ''pubDate'')) (findall_item root)) = 0
                  then []
                  else [missing_msg
                          (length (filter (\<lambda>i. is_missing (find_child i ''pubDate'')) (findall_item root)))
                          (length (findall_item root)) ''pubDate''])
               @ stale
             \<and> (stale = [] \<or> (\<exists>age nd. stale = [stale_msg age nd])))"
proof -
  note eq = returns [unfolded check_feed_items [of ET_parse feed_path root, OF parsed items]]
  from eq obtain stale where
    fresh: "freshness clock (newest_date (scan_items parsedate_to_datetime (findall_item root)))
              = Inr stale"
    by (auto split: sum.splits)
  have missing: "is_missing (find_child item field)
           = (find_child item field = None
              \<or> (\<exists>c. find_child item field = Some c \<and> strip (text_or_empty c) = []))"
    by (simp add: is_missing_def split: option.splits)
  from eq fresh have
    "errors = snd (field_findings (scan_items parsedate_to_datetime (findall_item root))
                     (length (findall_item root)))"
    "ok = (errors = [])"
    "warnings = fst (field_findings (scan_items parsedate_to_datetime (findall_item root))
                       (length (findall_item root))) @ stale"
    by auto
  with missing freshness_shape [OF fresh] show ?thesis
    by (simp add: fst_field_findings snd_field_findings scan_items_counts)
qed


text \<open>
  Two items, the first with a blank title, the second with a title only: one title,
  one link and one pubDate are missing.
\<close>

lemma missing_field_findings_example:
  "check_feed
     (\<lambda>p. Inr (rss [entry ''  '' ''http://a'' ''Tue, 20 Feb 2024 12:00:00 +0000'',
                     Element ''item'' None [leaf ''title'' ''B'']]))
     sample_parsedate sample_clock ''feed_a.xml'' False
   = Inr ((False, [''1/2 entries missing title'', ''1/2 entries missing pubDate''],
           [''1/2 entries missing link'']), [])
   \<and> is_missing (find_child (entry ''  '' ''http://a'' ''Tue, 20 Feb 2024 12:00:00 +0000'') ''title'')
   \<and> is_missing (find_child (Element ''item'' None [leaf ''title'' ''B'']) ''link'')
   \<and> \<not> is_missing (find_child (Element ''item'' None [leaf ''title'' ''B'']) ''title'')"
proof -
  let ?feed = "rss [entry ''  '' ''http://a'' ''Tue, 20 Feb 2024 12:00:00 +0000'',
                    Element ''item'' None [leaf ''title'' ''B'']]"
  have items: "findall_item ?feed \<noteq> []"
    by (simp add: tree_defs)
  have run: "check_feed (\<lambda>p. Inr ?feed) sample_parsedate sample_clock ''feed_a.xml'' False
      = Inr ((False, [''1/2 entries missing title'', ''1/2 entries missing pubDate''],
              [''1/2 entries missing link'']), [])"
    by (simp add: date_defs str_defs tree_defs check_defs)
  have fields:
    "is_missing (find_child (entry ''  '' ''http://a'' ''Tue, 20 Feb 2024 12:00:00 +0000'') ''title'')"
    "is_missing (find_child (Element ''item'' None [leaf ''title'' ''B'']) ''link'')"
    "\<not> is_missing (find_child (Element ''item'' None [leaf ''title'' ''B'']) ''title'')"
    by (simp_all add: tree_defs)
  from missing_field_findings [where ET_parse = "\<lambda>p. Inr ?feed" and root = ?feed,
         OF refl items run] run fields
  show ?thesis by simp
qed

text \<open>
  C10. For a feed with entries on which \<open>check_feed\<close> returns: the warnings are at most
  one message on missing titles, then at most one on missing pubDates, then at most one
  staleness warning, so at most three; the errors are at most the one message on missing
  links.
\<close>

theorem findings_order_and_number:
  assumes parsed: "ET_parse feed_path = Inr root"
    and items: "findall_item root \<noteq> []"
    and returns: "check_feed ET_parse parsedate_to_datetime clock feed_path verbose
                    = Inr ((ok, warnings, errors), printed)"
  shows "length warnings \<le> 3 \<and> length errors \<le> 1
       \<and> (\<exists>title_part date_part stale_part.
             warnings = title_part @ date_part @ stale_part
             \<and> (title_part = [] \<or> (\<exists>k. title_part = [missing_msg k (length (findall_item root)) ''title'']))
             \<and> (date_part = [] \<or> (\<exists>k. date_part = [missing_msg k (length (findall_item root)) ''pubDate'']))
             \<and> (stale_part = [] \<or> (\<exists>age nd. stale_part = [stale_msg age nd])))
       \<and> (errors = [] \<or> (\<exists>k. errors = [missing_msg k (length (findall_item root)) ''link'']))"
proof -
  let ?t = "scan_items parsedate_to_datetime (findall_item root)"
  let ?n = "length (findall_item root)"
  note eq = returns [unfolded check_feed_items [of ET_parse feed_path root, OF parsed items]]
  from eq obtain stale where fresh: "freshness clock (newest_date ?t) = Inr stale"
    by (auto split: sum.splits)
  from eq fresh have e: "errors = snd (field_findings ?t ?n)"
    and w: "warnings = fst (field_findings ?t ?n) @ stale"
    by auto
  from freshness_shape [OF fresh] have s: "stale = [] \<or> (\<exists>age nd. stale = [stale_msg age nd])" .
  let ?tp = "if missing_titles ?t \<noteq> 0 then [missing_msg (missing_titles ?t) ?n ''title''] else []"
  let ?dp = "if missing_dates ?t \<noteq> 0 then [missing_msg (missing_dates ?t) ?n ''pubDate''] else []"
  have w': "warnings = ?tp @ ?dp @ stale"
    using w by (simp add: fst_field_findings)
  have tp: "?tp = [] \<or> (\<exists>k. ?tp = [missing_msg k ?n ''title''])" by auto
  have dp: "?dp = [] \<or> (\<exists>k. ?dp = [missing_msg k ?n ''pubDate''])" by auto
  have lens: "length warnings \<le> 3" "length errors \<le> 1"
    using w' s e by (auto simp: snd_field_findings)
  have errs: "errors = [] \<or> (\<exists>k. errors = [missing_msg k ?n ''link''])"
    using e by (auto simp: snd_field_findings)
  from w' tp dp s have "\<exists>title_part date_part stale_part.
             warnings = title_part @ date_part @ stale_part
             \<and> (title_part = [] \<or> (\<exists>k. title_part = [missing_msg k ?n ''title'']))
             \<and> (date_part = [] \<or> (\<exists>k. date_part = [missing_msg k ?n ''pubDate'']))
             \<and> (stale_part = [] \<or> (\<exists>age nd. stale_part = [stale_msg age nd]))"
    by blast
  with lens errs show ?thesis by blast
qed



text \<open>A feed that gets all three warnings, in this order, and the error.\<close>

theorem findings_order_and_number_witness:
  "check_feed
     (\<lambda>p. Inr (rss [entry [] [] ''Tue, 16 Jan 2024 12:00:00 +0000'',
                     Element ''item'' None []]))
     sample_parsedate sample_clock ''feed_a.xml'' False
   = Inr ((False,
           [''2/2 entries missing title'', ''1/2 entries missing pubDate'',
            ''Stale: newest entry is 45 days old (2024-01-16)''],
           [''2/2 entries missing link'']), [])
   \<and> length [''2/2 entries missing title'', ''1/2 entries missing pubDate'',
               ''Stale: newest entry is 45 days old (2024-01-16)''] \<le> 3"
proof -
  let ?feed = "rss [entry [] [] ''Tue, 16 Jan 2024 12:00:00 +0000'', Element ''item'' None []]"
  have items: "findall_item ?feed \<noteq> []"
    by (simp add: tree_defs)
  have run: "check_feed (\<lambda>p. Inr ?feed) sample_parsedate sample_clock ''feed_a.xml'' False
      = Inr ((False,
           [''2/2 entries missing title'', ''1/2 entries missing pubDate'',
            ''Stale: newest entry is 45 days old (2024-01-16)''],
           [''2/2 entries missing link'']), [])"
    by (simp add: date_defs str_defs tree_defs check_defs)
  from findings_order_and_number [where ET_parse = "\<lambda>p. Inr ?feed" and root = ?feed,
         OF refl items run] run
  show ?thesis by simp
qed

subsection \<open>The driver\<close>

text \<open>What one turn of the loop does to the counters.\<close>

lemma classify_cases:
  "classify ok warnings = (if ok then if warnings = [] then ''OK'' else ''WARN'' else ''FAIL'')"
  by (simp add: classify_def)

lemma report_feed_counts:
  "healthy (report_feed st name (ok, warnings, errors))
     = healthy st + (if classify ok warnings = ''OK'' then 1 else 0)"
  "warn_count (report_feed st name (ok, warnings, errors))
     = warn_count st + (if classify ok warnings = ''WARN'' then 1 else 0)"
  "error_count (report_feed st name (ok, warnings, errors))
     = error_count st + (if classify ok warnings = ''FAIL'' then 1 else 0)"
  by (simp_all add: report_feed_def classify_def Let_def)

text \<open>
  The invariant of the loop: each counter has grown by the number of feeds of its
  status, and the three together by the number of feeds.
\<close>

lemma run_feeds_counts:
  "run_feeds ET_parse pd clock verbose feeds st = Inr st'
   \<Longrightarrow> healthy st' = healthy st
         + length (filter (\<lambda>p. status_of ET_parse pd clock verbose p = Some ''OK'') feeds)
     \<and> warn_count st' = warn_count st
         + length (filter (\<lambda>p. status_of ET_parse pd clock verbose p = Some ''WARN'') feeds)
     \<and> error_count st' = error_count st
         + length (filter (\<lambda>p. status_of ET_parse pd clock verbose p = Some ''FAIL'') feeds)"
proof (induction feeds arbitrary: st)
  case Nil
  then show ?case by simp
next
  case (Cons p ps)
  from Cons.prems obtain ok warnings errors printed where
    chk: "check_feed ET_parse pd clock p verbose = Inr ((ok, warnings, errors), printed)"
    by (auto split: sum.splits)
  with Cons.prems have
    "run_feeds ET_parse pd clock verbose ps
       (report_feed (st\<lparr>stdout := stdout st @ printed\<rparr>) p (ok, warnings, errors)) = Inr st'"
    by simp
  from Cons.IH [OF this] chk show ?case
    by (simp add: report_feed_counts status_of_def)
qed

lemma run_feeds_total:
  "run_feeds ET_parse pd clock verbose feeds st = Inr st'
   \<Longrightarrow> healthy st' + warn_count st' + error_count st'
       = healthy st + warn_count st + error_count st + length feeds"
proof (induction feeds arbitrary: st)
  case Nil
  then show ?case by simp
next
  case (Cons p ps)
  from Cons.prems obtain ok warnings errors printed where
    chk: "check_feed ET_parse pd clock p verbose = Inr ((ok, warnings, errors), printed)"
    by (auto split: sum.splits)
  with Cons.prems have
    "run_feeds ET_parse pd clock verbose ps
       (report_feed (st\<lparr>stdout := stdout st @ printed\<rparr>) p (ok, warnings, errors)) = Inr st'"
    by simp
  from Cons.IH [OF this] show ?case
    by (simp add: report_feed_counts classify_def)
qed

text \<open>The loop comes to its end exactly when every call of \<open>check_feed\<close> returns.\<close>

lemma run_feeds_returns:
  "(\<forall>p\<in>set feeds. \<exists>r. check_feed ET_parse pd clock p verbose = Inr r)
   \<Longrightarrow> \<exists>st'. run_feeds ET_parse pd clock verbose feeds st = Inr st'"
  by (induction feeds arbitrary: st) (auto split: sum.splits)

lemma run_feeds_all_return:
  "run_feeds ET_parse pd clock verbose feeds st = Inr st'
   \<Longrightarrow> \<forall>p\<in>set feeds. \<exists>r. check_feed ET_parse pd clock p verbose = Inr r"
  by (induction feeds arbitrary: st) (auto split: sum.splits)

lemma status_fail:
  "(status_of ET_parse pd clock verbose p = Some ''FAIL'')
     = (\<exists>ws es pr. check_feed ET_parse pd clock p verbose = Inr ((False, ws, es), pr))"
  by (auto simp: status_of_def classify_def split: sum.splits prod.splits)

lemma run_feeds_no_errors:
  assumes "run_feeds ET_parse pd clock verbose feeds st = Inr st'" and "error_count st = 0"
  shows "(error_count st' = 0)
     = (\<forall>p\<in>set feeds. \<exists>ws es pr. check_feed ET_parse pd clock p verbose = Inr ((True, ws, es), pr))"
proof -
  have ret: "\<forall>p\<in>set feeds. \<exists>r. check_feed ET_parse pd clock p verbose = Inr r"
    using assms(1) by (rule run_feeds_all_return)
  have "(error_count st' = 0)
      = (filter (\<lambda>p. status_of ET_parse pd clock verbose p = Some ''FAIL'') feeds = [])"
    using run_feeds_counts [OF assms(1)] assms(2) by simp
  also have "\<dots> = (\<forall>p\<in>set feeds. status_of ET_parse pd clock verbose p \<noteq> Some ''FAIL'')"
    by (simp add: filter_empty_conv)
  also have "\<dots> = (\<forall>p\<in>set feeds. \<exists>ws es pr.
      check_feed ET_parse pd clock p verbose = Inr ((True, ws, es), pr))"
  proof (rule ball_cong [OF refl])
    fix p assume "p \<in> set feeds"
    with ret obtain ok ws es pr where
      "check_feed ET_parse pd clock p verbose = Inr ((ok, ws, es), pr)"
      by (metis prod_cases3 surj_pair)
    then show "(status_of ET_parse pd clock verbose p \<noteq> Some ''FAIL'')
        = (\<exists>ws es pr. check_feed ET_parse pd clock p verbose = Inr ((True, ws, es), pr))"
      by (cases ok) (simp_all add: status_fail)
  qed
  finally show ?thesis .
qed

lemma run_feeds_none_failed:
  assumes "run_feeds ET_parse pd clock verbose feeds st = Inr st'" and "error_count st = 0"
  shows "(error_count st' = 0)
     = (\<forall>p\<in>set feeds. \<forall>ws es pr.
          check_feed ET_parse pd clock p verbose \<noteq> Inr ((False, ws, es), pr))"
proof -
  have "(error_count st' = 0)
      = (filter (\<lambda>p. status_of ET_parse pd clock verbose p = Some ''FAIL'') feeds = [])"
    using run_feeds_counts [OF assms(1)] assms(2) by simp
  also have "\<dots> = (\<forall>p\<in>set feeds. status_of ET_parse pd clock verbose p \<noteq> Some ''FAIL'')"
    by (simp add: filter_empty_conv)
  also have "\<dots> = (\<forall>p\<in>set feeds. \<forall>ws es pr.
      check_feed ET_parse pd clock p verbose \<noteq> Inr ((False, ws, es), pr))"
    by (simp add: status_fail)
  finally show ?thesis .
qed

text \<open>
  C8. In a run in which every call of \<open>check_feed\<close> returns, the loop of \<open>main\<close> goes
  through all \<open>N\<close> feeds and ends, from counters at zero, in a state where the healthy
  count is the number of feeds tagged \<open>OK\<close>, the warning count the number tagged
  \<open>WARN\<close>, the error count the number tagged \<open>FAIL\<close>, and the three counts add up to
  \<open>N\<close>. The tag is \<open>OK\<close> when \<open>ok\<close> holds and there is no warning, \<open>WARN\<close> when \<open>ok\<close>
  holds and there are warnings, \<open>FAIL\<close> when \<open>ok\<close> does not hold.
\<close>

theorem buckets_partition_feeds:
  assumes "\<forall>p\<in>set feeds. \<exists>r. check_feed ET_parse parsedate_to_datetime clock p verbose = Inr r"
  shows "\<exists>st.
       run_feeds ET_parse parsedate_to_datetime clock verbose feeds
         \<lparr>healthy = 0, warn_count = 0, error_count = 0, stdout = out\<rparr> = Inr st
     \<and> healthy st = length (filter
           (\<lambda>p. status_of ET_parse parsedate_to_datetime clock verbose p = Some ''OK'') feeds)
     \<and> warn_count st = length (filter
           (\<lambda>p. status_of ET_parse parsedate_to_datetime clock verbose p = Some ''WARN'') feeds)
     \<and> error_count st = length (filter
           (\<lambda>p. status_of ET_parse parsedate_to_datetime clock verbose p = Some ''FAIL'') feeds)
     \<and> healthy st + warn_count st + error_count st = length feeds
     \<and> classify ok warnings
         = (if ok then if warnings = [] then ''OK'' else ''WARN'' else ''FAIL'')"
proof -
  let ?st0 = "\<lparr>healthy = 0, warn_count = 0, error_count = 0, stdout = out\<rparr>"
  from run_feeds_returns [OF assms] obtain st where
    run: "run_feeds ET_parse parsedate_to_datetime clock verbose feeds ?st0 = Inr st"
    by blast
  from run_feeds_counts [OF run] run_feeds_total [OF run] classify_cases [of ok warnings]
  have "healthy st = length (filter
           (\<lambda>p. status_of ET_parse parsedate_to_datetime clock verbose p = Some ''OK'') feeds)
     \<and> warn_count st = length (filter
           (\<lambda>p. status_of ET_parse parsedate_to_datetime clock verbose p = Some ''WARN'') feeds)
     \<and> error_count st = length (filter
           (\<lambda>p. status_of ET_parse parsedate_to_datetime clock verbose p = Some ''FAIL'') feeds)
     \<and> healthy st + warn_count st + error_count st = length feeds
     \<and> classify ok warnings
         = (if ok then if warnings = [] then ''OK'' else ''WARN'' else ''FAIL'')"
    by simp
  with run show ?thesis by blast
qed

text \<open>Three feeds, one for each bucket.\<close>

theorem buckets_partition_feeds_witness:
  "run_feeds sample_ET_parse sample_parsedate sample_clock False
     [''feed_b.xml'', ''feed_c.xml'', ''feed_d.xml'']
     \<lparr>healthy = 0, warn_count = 0, error_count = 0, stdout = []\<rparr>
   = Inr \<lparr>healthy = 1, warn_count = 1, error_count = 1,
          stdout =
            [''  [OK  ] feed_b.xml'',
             ''  [FAIL] feed_c.xml'',
             ''         ! Invalid XML: no element found: line 1, column 0'',
             ''  [WARN] feed_d.xml'',
             ''         ^ Stale: newest entry is 45 days old (2024-01-16)'']\<rparr>
   \<and> (1::nat) + 1 + 1 = length [''feed_b.xml'', ''feed_c.xml'', ''feed_d.xml'']"
proof -
  let ?feeds = "[''feed_b.xml'', ''feed_c.xml'', ''feed_d.xml'']"
  have run: "run_feeds sample_ET_parse sample_parsedate sample_clock False ?feeds
     \<lparr>healthy = 0, warn_count = 0, error_count = 0, stdout = []\<rparr>
   = Inr \<lparr>healthy = 1, warn_count = 1, error_count = 1,
          stdout =
            [''  [OK  ] feed_b.xml'',
             ''  [FAIL] feed_c.xml'',
             ''         ! Invalid XML: no element found: line 1, column 0'',
             ''  [WARN] feed_d.xml'',
             ''         ^ Stale: newest entry is 45 days old (2024-01-16)'']\<rparr>"
    by (simp add: date_defs str_defs tree_defs check_defs sample_ET_parse_def report_feed_def
        classify_def)
  have "\<forall>p\<in>set ?feeds. \<exists>r. check_feed sample_ET_parse sample_parsedate sample_clock p False = Inr r"
    using run by (rule run_feeds_all_return)
  from buckets_partition_feeds [OF this, where out = "[]"] run show ?thesis by simp
qed

text \<open>
  A run over three matched files of which the last cannot be read: \<open>check_feed\<close> raises
  \<open>OSError\<close> on it and the loop ends there, with two files in a bucket, the third in none,
  and counts that add up to 2.
\<close>

theorem buckets_partition_feeds_counterexample:
  "run_feeds sample_ET_parse sample_parsedate sample_clock False
     [''feed_b.xml'', ''feed_d.xml'', ''feed_e.xml'']
     \<lparr>healthy = 0, warn_count = 0, error_count = 0, stdout = []\<rparr>
   = Inl (OSError ''[Errno 13] Permission denied'',
          \<lparr>healthy = 1, warn_count = 1, error_count = 0,
           stdout =
             [''  [OK  ] feed_b.xml'',
              ''  [WARN] feed_d.xml'',
              ''         ^ Stale: newest entry is 45 days old (2024-01-16)'']\<rparr>)
   \<and> (1::nat) + 1 + 0 \<noteq> length [''feed_b.xml'', ''feed_d.xml'', ''feed_e.xml'']
   \<and> status_of sample_ET_parse sample_parsedate sample_clock False ''feed_e.xml'' = None"
  by (simp add: date_defs str_defs tree_defs check_defs sample_ET_parse_def report_feed_def
      classify_def status_of_def)

text \<open>\<open>main\<close>, path by path.\<close>

lemma sort_empty: "(sort (g :: string list) = []) = (g = [])"
  using length_sort [of "\<lambda>x. x" g] by (metis length_0_conv)

lemma main_parse_args_exits:
  "main FEEDS_DIR dir_exists globbed ET_parse pd clock (Inl (n, printed)) = (Exit n, printed)"
  by (simp add: main_def)

lemma main_no_directory:
  "\<not> dir_exists
   \<Longrightarrow> main FEEDS_DIR dir_exists globbed ET_parse pd clock (Inr verbose)
       = (Exit 1, [''Feeds directory not found: '' @ FEEDS_DIR])"
  by (simp add: main_def)

lemma main_no_feeds:
  "dir_exists \<Longrightarrow> globbed = []
   \<Longrightarrow> main FEEDS_DIR dir_exists globbed ET_parse pd clock (Inr verbose)
       = (Exit 1, [''No feed files found.''])"
  by (simp add: main_def)

lemma main_run:
  assumes "dir_exists" and "globbed \<noteq> []"
  shows "main FEEDS_DIR dir_exists globbed ET_parse pd clock (Inr verbose) =
     (case run_feeds ET_parse pd clock verbose (sort globbed)
             \<lparr>healthy = 0, warn_count = 0, error_count = 0,
              stdout = [''Checking '' @ str_nat (length globbed) @ '' feeds in '' @ FEEDS_DIR
                        @ [CHR 0x0A]]\<rparr> of
        Inl (ex, st) \<Rightarrow> (Uncaught ex, stdout st)
      | Inr st \<Rightarrow> (Exit (if error_count st \<noteq> 0 then 1 else 0),
                    stdout st @ summary st (length globbed)))"
  using assms by (simp add: main_def Let_def sort_empty)

lemma main_completes:
  assumes "dir_exists" and "globbed \<noteq> []"
    and "\<forall>p\<in>set globbed. \<exists>r. check_feed ET_parse pd clock p verbose = Inr r"
  shows "\<exists>st out.
       run_feeds ET_parse pd clock verbose (sort globbed)
         \<lparr>healthy = 0, warn_count = 0, error_count = 0, stdout = out\<rparr> = Inr st
     \<and> main FEEDS_DIR dir_exists globbed ET_parse pd clock (Inr verbose)
         = (Exit (if error_count st = 0 then 0 else 1), stdout st @ summary st (length globbed))
     \<and> (exit_status (fst (main FEEDS_DIR dir_exists globbed ET_parse pd clock (Inr verbose))) = 0)
         = (error_count st = 0)
     \<and> (error_count st = 0)
         = (\<forall>p\<in>set globbed. \<forall>ws es pr.
              check_feed ET_parse pd clock p verbose \<noteq> Inr ((False, ws, es), pr))"
proof -
  let ?out = "[''Checking '' @ str_nat (length globbed) @ '' feeds in '' @ FEEDS_DIR @ [CHR 0x0A]]"
  let ?st0 = "\<lparr>healthy = 0, warn_count = 0, error_count = 0, stdout = ?out\<rparr>"
  from assms(3) have "\<forall>p\<in>set (sort globbed). \<exists>r. check_feed ET_parse pd clock p verbose = Inr r"
    by simp
  from run_feeds_returns [OF this] obtain st where
    run: "run_feeds ET_parse pd clock verbose (sort globbed) ?st0 = Inr st"
    by blast
  have exit: "main FEEDS_DIR dir_exists globbed ET_parse pd clock (Inr verbose)
      = (Exit (if error_count st = 0 then 0 else 1), stdout st @ summary st (length globbed))"
    unfolding main_run [OF assms(1,2)] run by simp
  have status: "(exit_status (fst (main FEEDS_DIR dir_exists globbed ET_parse pd clock
      (Inr verbose))) = 0) = (error_count st = 0)"
    unfolding exit by simp
  have "(error_count st = 0)
      = (\<forall>p\<in>set (sort globbed). \<forall>ws es pr.
           check_feed ET_parse pd clock p verbose \<noteq> Inr ((False, ws, es), pr))"
    using run by (rule run_feeds_none_failed) simp
  then have zero: "(error_count st = 0)
      = (\<forall>p\<in>set globbed. \<forall>ws es pr.
           check_feed ET_parse pd clock p verbose \<noteq> Inr ((False, ws, es), pr))"
    by simp
  from run exit status zero show ?thesis
    by (intro exI [of _ st] exI [of _ ?out] conjI)
qed

text \<open>
  Without any condition on the feeds: \<open>main\<close> ends through \<open>sys.exit(0)\<close> of line 143
  exactly when the directory exists, some file matches and every feed returned
  \<open>ok = True\<close>.
\<close>

lemma main_exit_zero:
  "(fst (main FEEDS_DIR dir_exists globbed ET_parse pd clock (Inr verbose)) = Exit 0)
     = (dir_exists \<and> globbed \<noteq> []
        \<and> (\<forall>p\<in>set globbed. \<exists>ws es pr.
              check_feed ET_parse pd clock p verbose = Inr ((True, ws, es), pr)))"
proof (cases "dir_exists \<and> globbed \<noteq> []")
  case False
  then show ?thesis
    by (auto simp: main_def)
next
  case True
  then have d: "dir_exists" and g: "globbed \<noteq> []" by simp_all
  let ?out = "[''Checking '' @ str_nat (length globbed) @ '' feeds in '' @ FEEDS_DIR @ [CHR 0x0A]]"
  let ?st0 = "\<lparr>healthy = 0, warn_count = 0, error_count = 0, stdout = ?out\<rparr>"
  show ?thesis
  proof (cases "run_feeds ET_parse pd clock verbose (sort globbed) ?st0")
    case (Inl a)
    have "fst (main FEEDS_DIR dir_exists globbed ET_parse pd clock (Inr verbose)) \<noteq> Exit 0"
      unfolding main_run [OF d g] Inl by (simp split: prod.splits)
    moreover have "\<not> (\<forall>p\<in>set globbed. \<exists>ws es pr.
              check_feed ET_parse pd clock p verbose = Inr ((True, ws, es), pr))"
    proof
      assume "\<forall>p\<in>set globbed. \<exists>ws es pr.
              check_feed ET_parse pd clock p verbose = Inr ((True, ws, es), pr)"
      then have "\<forall>p\<in>set (sort globbed). \<exists>r. check_feed ET_parse pd clock p verbose = Inr r"
        by fastforce
      from run_feeds_returns [OF this, of ?st0] Inl show False by simp
    qed
    ultimately show ?thesis by simp
  next
    case (Inr st)
    have m: "fst (main FEEDS_DIR dir_exists globbed ET_parse pd clock (Inr verbose))
        = Exit (if error_count st = 0 then 0 else 1)"
      unfolding main_run [OF d g] Inr by simp
    have "(error_count st = 0)
      = (\<forall>p\<in>set (sort globbed). \<exists>ws es pr.
           check_feed ET_parse pd clock p verbose = Inr ((True, ws, es), pr))"
      using Inr by (rule run_feeds_no_errors) simp
    with m d g show ?thesis
      by simp
  qed
qed

text \<open>
  C9. When the command line parses: if the feeds directory does not exist, \<open>main\<close> prints
  \<open>Feeds directory not found: <dir>\<close> and exits with status 1; if it exists and no file
  matches, \<open>main\<close> prints \<open>No feed files found.\<close> and exits with status 1; in both
  cases nothing else is printed, so no feed was checked. Otherwise, when every call of
  \<open>check_feed\<close> returns, the loop ends in a state \<open>st\<close> and \<open>main\<close> exits through line
  143: the exit status is 0 exactly when the error count of \<open>st\<close> is zero, and the error
  count is zero exactly when no feed returned \<open>ok = False\<close>, whatever the warnings.
\<close>

theorem main_exit_status:
  "(\<not> dir_exists \<longrightarrow>
      main FEEDS_DIR dir_exists globbed ET_parse parsedate_to_datetime clock (Inr verbose)
        = (Exit 1, [''Feeds directory not found: '' @ FEEDS_DIR]))
   \<and> (dir_exists \<and> globbed = [] \<longrightarrow>
      main FEEDS_DIR dir_exists globbed ET_parse parsedate_to_datetime clock (Inr verbose)
        = (Exit 1, [''No feed files found.'']))
   \<and> (dir_exists \<and> globbed \<noteq> []
        \<and> (\<forall>p\<in>set globbed. \<exists>r.
              check_feed ET_parse parsedate_to_datetime clock p verbose = Inr r) \<longrightarrow>
      (\<exists>st out.
         run_feeds ET_parse parsedate_to_datetime clock verbose (sort globbed)
           \<lparr>healthy = 0, warn_count = 0, error_count = 0, stdout = out\<rparr> = Inr st
         \<and> main FEEDS_DIR dir_exists globbed ET_parse parsedate_to_datetime clock (Inr verbose)
             = (Exit (if error_count st = 0 then 0 else 1),
                stdout st @ summary st (length globbed))
         \<and> (exit_status (fst (main FEEDS_DIR dir_exists globbed ET_parse parsedate_to_datetime
                clock (Inr verbose))) = 0)
             = (error_count st = 0)
         \<and> (error_count st = 0)
             = (\<forall>p\<in>set globbed. \<forall>ws es pr.
                  check_feed ET_parse parsedate_to_datetime clock p verbose
                    \<noteq> Inr ((False, ws, es), pr))))"
proof (intro conjI impI)
  assume "\<not> dir_exists"
  then show "main FEEDS_DIR dir_exists globbed ET_parse parsedate_to_datetime clock (Inr verbose)
        = (Exit 1, [''Feeds directory not found: '' @ FEEDS_DIR])"
    by (rule main_no_directory)
next
  assume "dir_exists \<and> globbed = []"
  then show "main FEEDS_DIR dir_exists globbed ET_parse parsedate_to_datetime clock (Inr verbose)
        = (Exit 1, [''No feed files found.''])"
    by (simp add: main_no_feeds)
next
  assume a: "dir_exists \<and> globbed \<noteq> []
        \<and> (\<forall>p\<in>set globbed. \<exists>r.
              check_feed ET_parse parsedate_to_datetime clock p verbose = Inr r)"
  then have "dir_exists" "globbed \<noteq> []"
    "\<forall>p\<in>set globbed. \<exists>r. check_feed ET_parse parsedate_to_datetime clock p verbose = Inr r"
    by simp_all
  then show "\<exists>st out.
         run_feeds ET_parse parsedate_to_datetime clock verbose (sort globbed)
           \<lparr>healthy = 0, warn_count = 0, error_count = 0, stdout = out\<rparr> = Inr st
         \<and> main FEEDS_DIR dir_exists globbed ET_parse parsedate_to_datetime clock (Inr verbose)
             = (Exit (if error_count st = 0 then 0 else 1),
                stdout st @ summary st (length globbed))
         \<and> (exit_status (fst (main FEEDS_DIR dir_exists globbed ET_parse parsedate_to_datetime
                clock (Inr verbose))) = 0)
             = (error_count st = 0)
         \<and> (error_count st = 0)
             = (\<forall>p\<in>set globbed. \<forall>ws es pr.
                  check_feed ET_parse parsedate_to_datetime clock p verbose
                    \<noteq> Inr ((False, ws, es), pr))"
    by (rule main_completes)
qed

text \<open>
  The two guards; a run with one stale feed, which exits with status 0; a run with one
  unparsable feed, which exits with status 1.
\<close>

theorem main_exit_status_witness:
  "main ''feeds'' False [''feed_b.xml''] sample_ET_parse sample_parsedate sample_clock (Inr False)
     = (Exit 1, [''Feeds directory not found: feeds''])
   \<and> main ''feeds'' True [] sample_ET_parse sample_parsedate sample_clock (Inr False)
     = (Exit 1, [''No feed files found.''])
   \<and> main ''feeds'' True [''feed_d.xml'', ''feed_b.xml''] sample_ET_parse sample_parsedate
         sample_clock (Inr False)
     = (Exit 0,
        [''Checking 2 feeds in feeds'' @ [CHR 0x0A],
         ''  [OK  ] feed_b.xml'',
         ''  [WARN] feed_d.xml'',
         ''         ^ Stale: newest entry is 45 days old (2024-01-16)'',
         CHR 0x0A # ''--- Summary ---'',
         ''  Healthy: 1/2'',
         ''  Warnings: 1/2''])
   \<and> main ''feeds'' True [''feed_c.xml'', ''feed_b.xml''] sample_ET_parse sample_parsedate
         sample_clock (Inr False)
     = (Exit 1,
        [''Checking 2 feeds in feeds'' @ [CHR 0x0A],
         ''  [OK  ] feed_b.xml'',
         ''  [FAIL] feed_c.xml'',
         ''         ! Invalid XML: no element found: line 1, column 0'',
         CHR 0x0A # ''--- Summary ---'',
         ''  Healthy: 1/2'',
         ''  Errors: 1/2''])"
proof -
  note inst = main_exit_status [where ET_parse = sample_ET_parse
      and parsedate_to_datetime = sample_parsedate and clock = sample_clock
      and verbose = False and FEEDS_DIR = "''feeds''"]
  from inst [where dir_exists = False and globbed = "[''feed_b.xml'']"]
  have no_dir: "main ''feeds'' False [''feed_b.xml''] sample_ET_parse sample_parsedate
      sample_clock (Inr False) = (Exit 1, [''Feeds directory not found: feeds''])"
    by simp
  from inst [where dir_exists = True and globbed = "[]"]
  have no_feeds: "main ''feeds'' True [] sample_ET_parse sample_parsedate sample_clock
      (Inr False) = (Exit 1, [''No feed files found.''])"
    by simp
  have warned: "main ''feeds'' True [''feed_d.xml'', ''feed_b.xml''] sample_ET_parse
      sample_parsedate sample_clock (Inr False)
     = (Exit 0,
        [''Checking 2 feeds in feeds'' @ [CHR 0x0A],
         ''  [OK  ] feed_b.xml'',
         ''  [WARN] feed_d.xml'',
         ''         ^ Stale: newest entry is 45 days old (2024-01-16)'',
         CHR 0x0A # ''--- Summary ---'',
         ''  Healthy: 1/2'',
         ''  Warnings: 1/2''])"
    by (simp add: main_def less_eq_char_def less_char_def Let_def date_defs str_defs tree_defs
        check_defs sample_ET_parse_def report_feed_def classify_def summary_def)
  have failed: "main ''feeds'' True [''feed_c.xml'', ''feed_b.xml''] sample_ET_parse
      sample_parsedate sample_clock (Inr False)
     = (Exit 1,
        [''Checking 2 feeds in feeds'' @ [CHR 0x0A],
         ''  [OK  ] feed_b.xml'',
         ''  [FAIL] feed_c.xml'',
         ''         ! Invalid XML: no element found: line 1, column 0'',
         CHR 0x0A # ''--- Summary ---'',
         ''  Healthy: 1/2'',
         ''  Errors: 1/2''])"
    by (simp add: main_def less_eq_char_def less_char_def Let_def date_defs str_defs tree_defs
        check_defs sample_ET_parse_def report_feed_def classify_def summary_def)
  from no_dir no_feeds warned failed show ?thesis by simp
qed

text \<open>
  Two runs that end with a status other than 0 although the error count is zero and no
  feed returned \<open>ok = False\<close>. In the first the only matched name is a directory:
  \<open>check_feed\<close> raises \<open>OSError\<close>, nothing catches it, and the process ends with status 1
  before any feed was put in a bucket. In the second the command line holds an argument
  that \<open>parse_args\<close> does not accept: the process ends with status 2 before the guards.
\<close>

theorem main_exit_status_counterexample:
  "check_feed sample_ET_parse sample_parsedate sample_clock ''feed_a.xml'' False
     = Inl (OSError ''[Errno 21] Is a directory'')
   \<and> run_feeds sample_ET_parse sample_parsedate sample_clock False [''feed_a.xml'']
       \<lparr>healthy = 0, warn_count = 0, error_count = 0,
        stdout = [''Checking 1 feeds in feeds'' @ [CHR 0x0A]]\<rparr>
     = Inl (OSError ''[Errno 21] Is a directory'',
            \<lparr>healthy = 0, warn_count = 0, error_count = 0,
             stdout = [''Checking 1 feeds in feeds'' @ [CHR 0x0A]]\<rparr>)
   \<and> exit_status (fst (main ''feeds'' True [''feed_a.xml''] sample_ET_parse sample_parsedate
         sample_clock (Inr False))) = 1
   \<and> exit_status (fst (main ''feeds'' True [''feed_b.xml''] sample_ET_parse sample_parsedate
         sample_clock (Inl (2, [])))) = 2"
  by (simp add: main_def Let_def str_defs check_feed_def sample_ET_parse_def)

subsection \<open>The newest date\<close>

text \<open>
  On a feed with entries \<open>check_feed\<close> raises exactly when the newest date it tracked is
  naive; otherwise it returns.
\<close>

lemma check_feed_raises_iff_naive:
  assumes "ET_parse feed_path = Inr root" and "findall_item root \<noteq> []"
  shows "(\<exists>ex. check_feed ET_parse pd clock feed_path verbose = Inl ex)
     = (\<exists>nd. newest_date (scan_items pd (findall_item root)) = Some nd \<and> tzinfo nd = None)"
proof (cases "newest_date (scan_items pd (findall_item root))")
  case None
  then show ?thesis
    by (simp add: check_feed_items [of ET_parse feed_path root, OF assms] freshness_None)
next
  case (Some nd)
  then show ?thesis
    by (cases "tzinfo nd")
       (simp_all add: check_feed_items [of ET_parse feed_path root, OF assms] freshness_Some
          dt_sub_def)
qed

text \<open>
  One turn of the loop, seen from the newest date: an item whose date is missing or does
  not parse leaves it as it was; a parsed date replaces it when there was none or when
  the comparison says it is later, and is dropped when the comparison raises.
\<close>

lemma strip_Nil: "strip [] = []"
  by (simp add: strip_def)

lemma track_newest_cases:
  "track_newest pd s newest =
     (case pd (strip s) of
        Inl e \<Rightarrow> newest
      | Inr dt \<Rightarrow>
          (case newest of
             None \<Rightarrow> Some dt
           | Some nd \<Rightarrow>
               (case dt_gt dt nd of
                  Inl e \<Rightarrow> Some nd
                | Inr b \<Rightarrow> if b then Some dt else Some nd)))"
  by (simp add: track_newest_def split: sum.splits option.splits)

lemma newest_date_scan_item:
  "newest_date (scan_item pd t item) =
     (case item_date pd item of
        None \<Rightarrow> newest_date t
      | Some dt \<Rightarrow>
          (case newest_date t of
             None \<Rightarrow> Some dt
           | Some nd \<Rightarrow>
               (case dt_gt dt nd of
                  Inl e \<Rightarrow> Some nd
                | Inr b \<Rightarrow> if b then Some dt else Some nd)))"
proof (cases "find_child item ''pubDate''")
  case None
  then show ?thesis
    by (simp add: scan_item_def item_date_def Let_def is_missing_def)
next
  case (Some p)
  show ?thesis
  proof (cases "etext p")
    case None
    with Some show ?thesis
      by (simp add: scan_item_def item_date_def Let_def is_missing_def text_or_empty_def strip_Nil)
  next
    case (Some s)
    show ?thesis
    proof (cases "strip s = []")
      case True
      with Some \<open>find_child item ''pubDate'' = Some p\<close> show ?thesis
        by (simp add: scan_item_def item_date_def Let_def is_missing_def text_or_empty_def)
    next
      case False
      then have "s \<noteq> []" by (auto simp: strip_Nil)
      with False Some \<open>find_child item ''pubDate'' = Some p\<close> show ?thesis
        by (simp add: scan_item_def item_date_def Let_def is_missing_def text_or_empty_def
            track_newest_cases split: sum.splits)
    qed
  qed
qed

text \<open>
  When every date that parses is aware, the loop ends with the latest of them, and with
  none exactly when no date parsed.
\<close>

lemma foldl_newest_aware:
  assumes "\<forall>item\<in>set items. \<forall>dt. item_date pd item = Some dt \<longrightarrow> tzinfo dt \<noteq> None"
    and "\<forall>nd. newest_date t = Some nd \<longrightarrow> tzinfo nd \<noteq> None"
  shows "(case newest_date (foldl (scan_item pd) t items) of
            None \<Rightarrow> newest_date t = None \<and> (\<forall>item\<in>set items. item_date pd item = None)
          | Some m \<Rightarrow>
              tzinfo m \<noteq> None
              \<and> (newest_date t = Some m \<or> (\<exists>item\<in>set items. item_date pd item = Some m))
              \<and> (\<forall>nd. newest_date t = Some nd \<longrightarrow> instant nd \<le> instant m)
              \<and> (\<forall>item\<in>set items. \<forall>dt. item_date pd item = Some dt \<longrightarrow> instant dt \<le> instant m))"
  using assms
proof (induction items arbitrary: t)
  case Nil
  then show ?case by (auto split: option.splits)
next
  case (Cons item items)
  have aware: "\<forall>nd. newest_date (scan_item pd t item) = Some nd \<longrightarrow> tzinfo nd \<noteq> None"
    using Cons.prems
    by (auto simp: newest_date_scan_item dt_gt_def split: option.splits sum.splits if_splits)
  have rest: "\<forall>item\<in>set items. \<forall>dt. item_date pd item = Some dt \<longrightarrow> tzinfo dt \<noteq> None"
    using Cons.prems(1) by simp
  note IH = Cons.IH [OF rest aware]
  show ?case
  proof (cases "newest_date (foldl (scan_item pd) (scan_item pd t item) items)")
    case None
    with IH Cons.prems show ?thesis
      by (auto simp: newest_date_scan_item dt_gt_def split: option.splits sum.splits if_splits)
  next
    case (Some m)
    with IH Cons.prems show ?thesis
      by (auto simp: newest_date_scan_item dt_gt_def instant_def
          split: option.splits sum.splits if_splits)
  qed
qed

lemma unparsed_date_ignored:
  "item_date pd item = None \<Longrightarrow> newest_date (scan_item pd t item) = newest_date t"
  by (simp add: newest_date_scan_item)

lemma newest_date_max_when_aware:
  assumes "\<forall>item\<in>set items. \<forall>dt. item_date pd item = Some dt \<longrightarrow> tzinfo dt \<noteq> None"
  shows "case newest_date (scan_items pd items) of
           None \<Rightarrow> (\<forall>item\<in>set items. item_date pd item = None)
         | Some m \<Rightarrow>
             (\<exists>item\<in>set items. item_date pd item = Some m)
             \<and> (\<forall>item\<in>set items. \<forall>dt. item_date pd item = Some dt \<longrightarrow> instant dt \<le> instant m)"
  using foldl_newest_aware [OF assms, of tally0]
  by (simp add: scan_items_def tally0_def split: option.splits)

subsection \<open>Naive and aware dates\<close>

text \<open>
  The lemma on the latest date needs every date to be aware. \<open>parsedate_to_datetime\<close> returns a
  naive datetime for a date whose zone is \<open>-0000\<close>, absent or unknown, and \<open>check_feed\<close>
  never makes it aware. The examples run the code on such dates.
\<close>

text \<open>
  C4. A feed whose only entry is dated \<open>Wed, 28 Feb 2024 09:30:00 -0000\<close>: the date
  parses to a naive datetime, it becomes the newest date, and the subtraction of line 81
  from the aware \<open>now\<close> raises \<open>TypeError\<close>, which leaves \<open>check_feed\<close>.
\<close>

theorem check_feed_naive_newest_raises:
  "check_feed (\<lambda>p. Inr (rss [entry ''B'' ''http://b'' ''Wed, 28 Feb 2024 09:30:00 -0000'']))
     sample_parsedate sample_clock ''feed_a.xml'' False
   = Inl (TypeError ''can't subtract offset-naive and offset-aware datetimes'')"
  by (simp add: date_defs str_defs tree_defs check_defs)

text \<open>
  C5. A feed with an entry of 2020 dated with zone \<open>+0000\<close> followed by an entry of
  28 Feb 2024 dated with zone \<open>-0000\<close>: both dates parse, yet the comparison of line 66
  raises \<open>TypeError\<close> inside the \<open>try\<close> block and the later date is dropped. The newest
  date stays at 2020 and the feed is reported stale, two days after its last entry.
\<close>

theorem newest_date_drops_naive_entry:
  "sample_parsedate (strip (ustr_of ''Wed, 28 Feb 2024 09:30:00 -0000''))
     = Inr (mk_datetime 2024 2 28 9 30 0 None)
   \<and> newest_date (scan_items sample_parsedate (findall_item
         (rss [entry ''A'' ''http://a'' ''Wed, 01 Jan 2020 00:00:00 +0000'',
               entry ''B'' ''http://b'' ''Wed, 28 Feb 2024 09:30:00 -0000''])))
       = Some (mk_datetime 2020 1 1 0 0 0 (Some 0))
   \<and> check_feed
         (\<lambda>p. Inr (rss [entry ''A'' ''http://a'' ''Wed, 01 Jan 2020 00:00:00 +0000'',
                         entry ''B'' ''http://b'' ''Wed, 28 Feb 2024 09:30:00 -0000'']))
         sample_parsedate sample_clock ''feed_a.xml'' False
       = Inr ((True, [''Stale: newest entry is 1521 days old (2020-01-01)''], []), [])"
  by (simp add: date_defs str_defs tree_defs check_defs)

text \<open>
  C7. A feed whose only entry has a title, a blank link and the date
  \<open>Wed, 28 Feb 2024 09:30:00\<close> with no zone: the link is missing and the loop counts it,
  but the date parses to a naive datetime and line 81 raises \<open>TypeError\<close>, so lines 92 and
  93 are never reached: no error on the link and no \<open>ok = False\<close> is returned.
\<close>

theorem missing_link_lost_when_newest_naive:
  "is_missing (find_child (entry ''A'' '' '' ''Wed, 28 Feb 2024 09:30:00'') ''link'')
   \<and> missing_links (scan_items sample_parsedate (findall_item
         (rss [entry ''A'' '' '' ''Wed, 28 Feb 2024 09:30:00''])))
       = 1
   \<and> snd (field_findings
         (scan_items sample_parsedate (findall_item
            (rss [entry ''A'' '' '' ''Wed, 28 Feb 2024 09:30:00''])))
         (length (findall_item (rss [entry ''A'' '' '' ''Wed, 28 Feb 2024 09:30:00'']))))
       = [''1/1 entries missing link'']
   \<and> check_feed (\<lambda>p. Inr (rss [entry ''A'' '' '' ''Wed, 28 Feb 2024 09:30:00'']))
       sample_parsedate sample_clock ''feed_a.xml'' False
     = Inl (TypeError ''can't subtract offset-naive and offset-aware datetimes'')"
  by (simp add: date_defs str_defs tree_defs check_defs)

end
